theory Spec2Isabelle
  imports Main
begin

section \<open>Values, errors and method bodies\<close>

text \<open>
  The repository is a README with paired TypeScript snippets (``Bad'' and ``Good'') for
  the five SOLID principles, and three standalone files that repeat the SRP and OCP
  snippets. Each snippet is embedded below under a prefix naming its example
  (\<open>SRP_Bad_\<close>, \<open>OCP_Good_\<close>, ...), since the examples reuse class names.
\<close>

subsection \<open>Numbers\<close>

text \<open>
  A JavaScript number is an IEEE 754 double: \<open>NaN\<close>, an infinity, \<open>-0\<close>, or a finite
  value. \<open>Double m e\<close> is the double \<open>m * 2 ^ e\<close>, written with an odd \<open>m\<close>; \<open>+0\<close>
  is \<open>Double 0 0\<close>. The finite doubles are those with \<open>\<bar>m\<bar> < 2 ^ 53\<close>,
  \<open>- 1074 \<le> e\<close> and \<open>\<bar>m\<bar> * 2 ^ e < 2 ^ 1024\<close>; other terms \<open>Double m e\<close> stand
  for no number of the language.
\<close>

datatype number = NaN | PosInfinity | NegInfinity | NegZero | Double int int

definition is_double :: "number \<Rightarrow> bool" where
  "is_double x =
     (case x of
        Double m e \<Rightarrow>
          m = 0 \<and> e = 0
          \<or> odd m \<and> \<bar>m\<bar> < 2 ^ 53 \<and> - 1074 \<le> e \<and> \<bar>m\<bar> * 2 ^ nat (e + 1074) < 2 ^ 2098
      | _ \<Rightarrow> True)"

text \<open>The number of binary digits of a natural number.\<close>

fun bits :: "nat \<Rightarrow> nat" where
  "bits n = (if n = 0 then 0 else Suc (bits (n div 2)))"

declare bits.simps [simp del]

text \<open>\<open>m / 2 ^ s\<close> rounded to the nearest integer, a tie to the even one.\<close>

definition round_half_even :: "int \<Rightarrow> nat \<Rightarrow> int" where
  "round_half_even m s =
     (let q = m div 2 ^ s; r = m mod 2 ^ s; half = 2 ^ (s - 1)
      in if r < half then q else if half < r then q + 1 else if even q then q else q + 1)"

text \<open>\<open>m * 2 ^ e\<close> written with an odd \<open>m\<close>.\<close>

function canonical :: "int \<Rightarrow> int \<Rightarrow> int \<times> int" where
  "canonical m e =
     (if m = 0 then (0, 0) else if even m then canonical (m div 2) (e + 1) else (m, e))"
  by pat_completeness auto
termination
  by (relation "measure (\<lambda>(m, e). nat \<bar>m\<bar>)") (auto elim!: evenE)

declare canonical.simps [simp del]

definition signed_zero :: "bool \<Rightarrow> number" where
  "signed_zero negative = (if negative then NegZero else Double 0 0)"

text \<open>
  The double nearest to the exact value \<open>m * 2 ^ e\<close> (round to nearest, ties to even):
  the value is cut to 53 binary digits, and to a multiple of \<open>2 ^ - 1074\<close> where it is
  subnormal; a result of \<open>2 ^ 1024\<close> or more is an infinity, and a result of zero
  takes the sign given.
\<close>

definition round_double :: "int \<Rightarrow> int \<Rightarrow> bool \<Rightarrow> number" where
  "round_double m e negative =
     (if m = 0 then signed_zero negative
      else
        let q = max (e + int (bits (nat \<bar>m\<bar>)) - 53) (- 1074);
            m' = (if q \<le> e then m * 2 ^ nat (e - q) else round_half_even m (nat (q - e)))
        in if m' = 0 then signed_zero negative
           else if 2 ^ 2098 \<le> \<bar>m'\<bar> * 2 ^ nat (q + 1074)
           then (if m' < 0 then NegInfinity else PosInfinity)
           else (case canonical m' q of (m'', e'') \<Rightarrow> Double m'' e''))"

fun is_negative :: "number \<Rightarrow> bool" where
  "is_negative NegInfinity = True"
| "is_negative NegZero = True"
| "is_negative (Double m e) = (m < 0)"
| "is_negative _ = False"

fun mantissa :: "number \<Rightarrow> int" where
  "mantissa (Double m e) = m"
| "mantissa _ = 0"

fun exponent :: "number \<Rightarrow> int" where
  "exponent (Double m e) = e"
| "exponent _ = 0"

definition is_zero :: "number \<Rightarrow> bool" where
  "is_zero x = (x = NegZero \<or> x = Double 0 0)"

definition is_infinite :: "number \<Rightarrow> bool" where
  "is_infinite x = (x = PosInfinity \<or> x = NegInfinity)"

text \<open>
  The operator \<open>*\<close> on two numbers: \<open>NaN\<close> if an operand is \<open>NaN\<close> or the operands are
  an infinity and a zero, an infinity if one operand is, and the rounded exact product
  otherwise; the sign is the product of the signs.
\<close>

definition js_times :: "number \<Rightarrow> number \<Rightarrow> number" where
  "js_times x y =
     (if x = NaN \<or> y = NaN then NaN
      else if is_infinite x \<or> is_infinite y then
        (if is_zero x \<or> is_zero y then NaN
         else if is_negative x \<noteq> is_negative y then NegInfinity else PosInfinity)
      else round_double (mantissa x * mantissa y) (exponent x + exponent y)
             (is_negative x \<noteq> is_negative y))"


text \<open>The number a decimal integer literal denotes: \<open>num 4\<close> is the \<open>4\<close> of the
  source.\<close>

definition num :: "int \<Rightarrow> number" where
  "num n = round_double n 0 False"

subsection \<open>Values and method bodies\<close>

text \<open>
  The values the snippets handle: \<open>undefined\<close>, numbers and strings.
\<close>

datatype jsval = Undefined | Num number | Str string

text \<open>\<open>new Error(message)\<close>: the only exception class the snippets throw.\<close>

datatype error = Error string

text \<open>
  A method body is a function from the state it can touch to an outcome and the state
  it leaves: \<open>Inl e\<close> when the body throws \<open>e\<close>, \<open>Inr v\<close> when it returns \<open>v\<close>
  (\<open>Undefined\<close> when it ends without a \<open>return\<close>).
\<close>

type_synonym ('w, 'a) prog = "'w \<Rightarrow> (error + 'a) \<times> 'w"

definition return :: "'a \<Rightarrow> ('w, 'a) prog" where
  "return v w = (Inr v, w)"

definition throw :: "error \<Rightarrow> ('w, 'a) prog" where
  "throw e w = (Inl e, w)"

text \<open>Sequencing of statements: a throw in the first ends the body.\<close>

definition bind :: "('w, 'a) prog \<Rightarrow> ('a \<Rightarrow> ('w, 'b) prog) \<Rightarrow> ('w, 'b) prog" where
  "bind m f w = (case m w of (Inl e, w') \<Rightarrow> (Inl e, w') | (Inr v, w') \<Rightarrow> f v w')"

text \<open>The body \<open>{ // ... }\<close>: nothing is computed, changed or thrown, and the call
  evaluates to \<open>undefined\<close>.\<close>

definition placeholder :: "('w, jsval) prog" where
  "placeholder = return Undefined"

section \<open>Single Responsibility Principle\<close>

text \<open>
  \<^verbatim>\<open>
  class Salary {
      calculateSalary(){ // ... }
      printPaycheck(){ // ... }
      saveData(){ // ... }
  }
  class SalaryCalculate { calculate(){ // ... } }
  class SalaryPaycheck { print(){ // ... } }
  class SalaryPersistence { save(){ // ... } }
  \<close>
\<close>

definition SRP_Bad_Salary_calculateSalary :: "('w, jsval) prog" where
  "SRP_Bad_Salary_calculateSalary = placeholder"

definition SRP_Bad_Salary_printPaycheck :: "('w, jsval) prog" where
  "SRP_Bad_Salary_printPaycheck = placeholder"

definition SRP_Bad_Salary_saveData :: "('w, jsval) prog" where
  "SRP_Bad_Salary_saveData = placeholder"

definition SRP_Good_SalaryCalculate_calculate :: "('w, jsval) prog" where
  "SRP_Good_SalaryCalculate_calculate = placeholder"

definition SRP_Good_SalaryPaycheck_print :: "('w, jsval) prog" where
  "SRP_Good_SalaryPaycheck_print = placeholder"

definition SRP_Good_SalaryPersistence_save :: "('w, jsval) prog" where
  "SRP_Good_SalaryPersistence_save = placeholder"

section \<open>Calls that are observed\<close>

text \<open>
  The Open/Closed examples are about which methods a loop calls, on which objects and in
  which order, while the bodies called are empty. The calls are therefore recorded: the
  state of these examples is a log of calls together with the rest of the program
  state \<open>'w\<close>, and a call appends its entry to the log before the body runs.
\<close>

definition call :: "'c \<Rightarrow> ('c list \<times> 'w, 'a) prog \<Rightarrow> ('c list \<times> 'w, 'a) prog" where
  "call c body = (\<lambda>(log, w). body (log @ [c], w))"

text \<open>A body that knows nothing of the log: it runs on the rest of the state.\<close>

definition unlogged :: "('w, 'a) prog \<Rightarrow> ('c list \<times> 'w, 'a) prog" where
  "unlogged m = (\<lambda>(log, w). case m w of (r, w') \<Rightarrow> (r, (log, w')))"

section \<open>Open/Closed Principle, ``Bad''\<close>

text \<open>
  \<^verbatim>\<open>
  class Employee {
      public selectedNotifyChannel;
      public sendEmailNotification() { // ... }
      public sendSMSNotification() { // ... }
  }
  class NotifyManager {
      notifyAll(employees: Employee[]) {
          for (const employee of employees) {
              switch (employee.selectedNotifyChannel) {
                  case 'SMS': employee.sendSMSNotification(); break;
                  case 'Email': employee.sendEmailNotification(); break;
                  default: throw new Error('Unknown Channel');
              }
          }
      }
  }
  \<close>
  (The README writes the field as \<open>selectedNotifyChannel: string\<close> and leaves out
  \<open>public\<close>.) The class has no constructor and the field no initialiser, so a new
  employee's channel is \<open>undefined\<close> until the field is assigned from outside.
\<close>

record OCP_Bad_Employee =
  selectedNotifyChannel :: jsval

definition OCP_Bad_new_Employee :: OCP_Bad_Employee where
  "OCP_Bad_new_Employee = \<lparr>selectedNotifyChannel = Undefined\<rparr>"

datatype OCP_Bad_call =
  Call_sendEmailNotification OCP_Bad_Employee
| Call_sendSMSNotification OCP_Bad_Employee

definition OCP_Bad_Employee_sendEmailNotification :: "OCP_Bad_Employee \<Rightarrow> ('w, jsval) prog" where
  "OCP_Bad_Employee_sendEmailNotification this = placeholder"

definition OCP_Bad_Employee_sendSMSNotification :: "OCP_Bad_Employee \<Rightarrow> ('w, jsval) prog" where
  "OCP_Bad_Employee_sendSMSNotification this = placeholder"

text \<open>The \<open>switch\<close> compares with \<open>===\<close>: only the strings \<open>'SMS'\<close> and \<open>'Email'\<close>
  themselves match, in this order.\<close>

definition OCP_Bad_switch :: "OCP_Bad_Employee \<Rightarrow> (OCP_Bad_call list \<times> 'w, jsval) prog" where
  "OCP_Bad_switch employee =
     (if OCP_Bad_Employee.selectedNotifyChannel employee = Str ''SMS'' then
        call (Call_sendSMSNotification employee) (OCP_Bad_Employee_sendSMSNotification employee)
      else if OCP_Bad_Employee.selectedNotifyChannel employee = Str ''Email'' then
        call (Call_sendEmailNotification employee) (OCP_Bad_Employee_sendEmailNotification employee)
      else throw (Error ''Unknown Channel''))"

fun OCP_Bad_NotifyManager_notifyAll ::
  "OCP_Bad_Employee list \<Rightarrow> (OCP_Bad_call list \<times> 'w, jsval) prog" where
  "OCP_Bad_NotifyManager_notifyAll [] = return Undefined"
| "OCP_Bad_NotifyManager_notifyAll (employee # employees) =
     bind (OCP_Bad_switch employee) (\<lambda>_. OCP_Bad_NotifyManager_notifyAll employees)"

text \<open>Two notions for stating what the loop does: a channel the \<open>switch\<close> has a
  case for, and the call that case makes.\<close>

definition OCP_Bad_known_channel :: "OCP_Bad_Employee \<Rightarrow> bool" where
  "OCP_Bad_known_channel e =
     (OCP_Bad_Employee.selectedNotifyChannel e = Str ''SMS''
      \<or> OCP_Bad_Employee.selectedNotifyChannel e = Str ''Email'')"

definition OCP_Bad_matching_call :: "OCP_Bad_Employee \<Rightarrow> OCP_Bad_call" where
  "OCP_Bad_matching_call e =
     (if OCP_Bad_Employee.selectedNotifyChannel e = Str ''SMS''
      then Call_sendSMSNotification e else Call_sendEmailNotification e)"

section \<open>Open/Closed Principle, ``Good''\<close>

text \<open>
  \<^verbatim>\<open>
  interface Notifier { notify(); }
  class EmailNotifier implements Notifier { notify() { // ... } }
  class SMSNotifier implements Notifier { notify() { // ... } }
  class Employee {
      private notifier;
      public selectedNotifyChannel;
      constructor(notifier: Notifier) { this.notifier = notifier; }
      sendNotification() { this.notifier.notify(); }
  }
  class NotifyManager {
      notifyAll(employees: Employee[]) {
          for (const employee of employees) { employee.sendNotification(); }
      }
  }
  \<close>
  (The standalone file leaves out \<open>implements Notifier\<close>; TypeScript types are
  structural, so the objects are the same.)

  \<open>Notifier\<close> is an interface that the example means to be implemented by classes
  written later (the README names a \<open>WhatsAppNotifier\<close>), so a notifier is any object
  with a \<open>notify\<close> method: the name of its class and the body of the method, which
  acts on the rest of the program state and returns or throws. Bodies that do not
  terminate are outside the model.
\<close>

record 'w OCP_Good_Notifier =
  class_name :: string
  notify :: "('w, jsval) prog"

definition OCP_Good_EmailNotifier_notify :: "('w, jsval) prog" where
  "OCP_Good_EmailNotifier_notify = placeholder"

definition OCP_Good_SMSNotifier_notify :: "('w, jsval) prog" where
  "OCP_Good_SMSNotifier_notify = placeholder"

definition OCP_Good_new_EmailNotifier :: "'w OCP_Good_Notifier" where
  "OCP_Good_new_EmailNotifier =
     \<lparr>class_name = ''EmailNotifier'', notify = OCP_Good_EmailNotifier_notify\<rparr>"

definition OCP_Good_new_SMSNotifier :: "'w OCP_Good_Notifier" where
  "OCP_Good_new_SMSNotifier =
     \<lparr>class_name = ''SMSNotifier'', notify = OCP_Good_SMSNotifier_notify\<rparr>"

record 'w OCP_Good_Employee =
  notifier :: "'w OCP_Good_Notifier"
  selectedNotifyChannel :: jsval

text \<open>The constructor assigns \<open>notifier\<close> only; \<open>selectedNotifyChannel\<close> has no
  initialiser and stays \<open>undefined\<close> until it is assigned from outside.\<close>

definition OCP_Good_Employee_constructor :: "'w OCP_Good_Notifier \<Rightarrow> 'w OCP_Good_Employee" where
  "OCP_Good_Employee_constructor n = \<lparr>notifier = n, selectedNotifyChannel = Undefined\<rparr>"

datatype 'w OCP_Good_call =
  Call_sendNotification "'w OCP_Good_Employee"
| Call_notify "'w OCP_Good_Notifier"

text \<open>\<open>this.notifier.notify();\<close> is a statement: the value \<open>notify\<close> returns is
  dropped and \<open>sendNotification\<close> returns \<open>undefined\<close>.\<close>

definition OCP_Good_Employee_sendNotification ::
  "'w OCP_Good_Employee \<Rightarrow> ('w OCP_Good_call list \<times> 'w, jsval) prog" where
  "OCP_Good_Employee_sendNotification this =
     bind (call (Call_notify (notifier this)) (unlogged (notify (notifier this))))
       (\<lambda>_. return Undefined)"

fun OCP_Good_NotifyManager_notifyAll ::
  "'w OCP_Good_Employee list \<Rightarrow> ('w OCP_Good_call list \<times> 'w, jsval) prog" where
  "OCP_Good_NotifyManager_notifyAll [] = return Undefined"
| "OCP_Good_NotifyManager_notifyAll (employee # employees) =
     bind (call (Call_sendNotification employee) (OCP_Good_Employee_sendNotification employee))
       (\<lambda>_. OCP_Good_NotifyManager_notifyAll employees)"

text \<open>The calls the loop makes for a list of employees when nothing throws.\<close>

definition OCP_Good_calls_of :: "'w OCP_Good_Employee list \<Rightarrow> 'w OCP_Good_call list" where
  "OCP_Good_calls_of es = concat (map (\<lambda>e. [Call_sendNotification e, Call_notify (notifier e)]) es)"

text \<open>A notifier whose \<open>notify\<close> returns from every state, as the two of the
  repository do.\<close>

definition OCP_Good_notify_returns :: "'w OCP_Good_Notifier \<Rightarrow> bool" where
  "OCP_Good_notify_returns n = (\<forall>w. \<exists>v. fst (notify n w) = Inr v)"

text \<open>The rest of the program state after the notifiers of a list of employees ran
  in order, each to its end.\<close>

fun OCP_Good_state_after :: "'w OCP_Good_Employee list \<Rightarrow> 'w \<Rightarrow> 'w" where
  "OCP_Good_state_after [] w = w"
| "OCP_Good_state_after (e # es) w = OCP_Good_state_after es (snd (notify (notifier e) w))"

text \<open>Whether the notifiers of a list of employees, run in order, all return, and the
  rest of the program state when the loop over them ends: after the last notifier, or
  after the first one that throws.\<close>

fun OCP_Good_all_return :: "'w OCP_Good_Employee list \<Rightarrow> 'w \<Rightarrow> bool" where
  "OCP_Good_all_return [] w = True"
| "OCP_Good_all_return (e # es) w =
     (case notify (notifier e) w of
        (Inl err, w') \<Rightarrow> False
      | (Inr v, w') \<Rightarrow> OCP_Good_all_return es w')"

fun OCP_Good_final_state :: "'w OCP_Good_Employee list \<Rightarrow> 'w \<Rightarrow> 'w" where
  "OCP_Good_final_state [] w = w"
| "OCP_Good_final_state (e # es) w =
     (case notify (notifier e) w of
        (Inl err, w') \<Rightarrow> w'
      | (Inr v, w') \<Rightarrow> OCP_Good_final_state es w')"

section \<open>Liskov Substitution Principle, ``Bad''\<close>

text \<open>
  \<^verbatim>\<open>
  class Rectangle {
      width; height;
      constructor() { this.width = 0; this.height = 0; }
      setColor(color) { // ... }
      render(area) { // ... }
      setWidth(width) { this.width = width; }
      setHeight(height) { this.height = height; }
      getArea() { return this.width * this.height; }
  }
  class Square extends Rectangle {
      setWidth(width) { this.width = width; this.height = width; }
      setHeight(height) { this.width = height; this.height = height; }
  }
  \<close>
  An object is its class and its two fields. The fields have no type in the source and
  the setters store what they are given, so the type \<open>'v\<close> of the values in the fields
  is left open. The constructor and \<open>getArea\<close> are embedded for fields that hold
  numbers: the constructor stores the number 0, and \<open>*\<close> on two numbers is
  \<open>js_times\<close> (on other values \<open>*\<close> first converts them to numbers, which is not
  modelled). A body acts on \<open>this\<close>.
\<close>

datatype LSP_Bad_class = Rectangle | Square

record 'v LSP_Bad_object =
  cls :: LSP_Bad_class
  width :: 'v
  height :: 'v

definition LSP_Bad_Rectangle_constructor :: "LSP_Bad_class \<Rightarrow> number LSP_Bad_object" where
  "LSP_Bad_Rectangle_constructor c = \<lparr>cls = c, width = num 0, height = num 0\<rparr>"

text \<open>\<open>new Rectangle()\<close> and \<open>new Square()\<close>: \<open>Square\<close> declares no constructor and
  runs the one it inherits.\<close>

definition LSP_Bad_new_Rectangle :: "number LSP_Bad_object" where
  "LSP_Bad_new_Rectangle = LSP_Bad_Rectangle_constructor Rectangle"

definition LSP_Bad_new_Square :: "number LSP_Bad_object" where
  "LSP_Bad_new_Square = LSP_Bad_Rectangle_constructor Square"

definition LSP_Bad_Rectangle_setColor :: "jsval \<Rightarrow> ('v LSP_Bad_object, jsval) prog" where
  "LSP_Bad_Rectangle_setColor color = placeholder"

definition LSP_Bad_Rectangle_render :: "jsval \<Rightarrow> ('v LSP_Bad_object, jsval) prog" where
  "LSP_Bad_Rectangle_render area = placeholder"

definition LSP_Bad_Rectangle_setWidth :: "'v \<Rightarrow> ('v LSP_Bad_object, jsval) prog" where
  "LSP_Bad_Rectangle_setWidth w this = (Inr Undefined, this\<lparr>width := w\<rparr>)"

definition LSP_Bad_Rectangle_setHeight :: "'v \<Rightarrow> ('v LSP_Bad_object, jsval) prog" where
  "LSP_Bad_Rectangle_setHeight h this = (Inr Undefined, this\<lparr>height := h\<rparr>)"

definition LSP_Bad_Rectangle_getArea :: "(number LSP_Bad_object, jsval) prog" where
  "LSP_Bad_Rectangle_getArea this = (Inr (Num (js_times (width this) (height this))), this)"

definition LSP_Bad_Square_setWidth :: "'v \<Rightarrow> ('v LSP_Bad_object, jsval) prog" where
  "LSP_Bad_Square_setWidth w this = (Inr Undefined, this\<lparr>width := w, height := w\<rparr>)"

definition LSP_Bad_Square_setHeight :: "'v \<Rightarrow> ('v LSP_Bad_object, jsval) prog" where
  "LSP_Bad_Square_setHeight h this = (Inr Undefined, this\<lparr>width := h, height := h\<rparr>)"

text \<open>Method calls \<open>rectangle.m(...)\<close>: the body is chosen by the object's class; a
  \<open>Square\<close> overrides the two setters and inherits the rest.\<close>

definition LSP_Bad_setColor :: "jsval \<Rightarrow> ('v LSP_Bad_object, jsval) prog" where
  "LSP_Bad_setColor color this = LSP_Bad_Rectangle_setColor color this"

definition LSP_Bad_render :: "jsval \<Rightarrow> ('v LSP_Bad_object, jsval) prog" where
  "LSP_Bad_render area this = LSP_Bad_Rectangle_render area this"

definition LSP_Bad_setWidth :: "'v \<Rightarrow> ('v LSP_Bad_object, jsval) prog" where
  "LSP_Bad_setWidth w this =
     (case cls this of
        Rectangle \<Rightarrow> LSP_Bad_Rectangle_setWidth w this
      | Square \<Rightarrow> LSP_Bad_Square_setWidth w this)"

definition LSP_Bad_setHeight :: "'v \<Rightarrow> ('v LSP_Bad_object, jsval) prog" where
  "LSP_Bad_setHeight h this =
     (case cls this of
        Rectangle \<Rightarrow> LSP_Bad_Rectangle_setHeight h this
      | Square \<Rightarrow> LSP_Bad_Square_setHeight h this)"

definition LSP_Bad_getArea :: "(number LSP_Bad_object, jsval) prog" where
  "LSP_Bad_getArea this = LSP_Bad_Rectangle_getArea this"

text \<open>
  \<^verbatim>\<open>
  rectangle.setWidth(4);
  rectangle.setHeight(5);
  const area = rectangle.getArea();
  rectangle.render(area);
  \<close>
  The body of the callback of \<open>renderLargeRectangles\<close>, up to the value of \<open>area\<close>.
\<close>

definition LSP_Bad_area_4_5 :: "(number LSP_Bad_object, jsval) prog" where
  "LSP_Bad_area_4_5 =
     bind (LSP_Bad_setWidth (num 4)) (\<lambda>_.
     bind (LSP_Bad_setHeight (num 5)) (\<lambda>_.
     LSP_Bad_getArea))"

text \<open>The callback, and the loop \<open>rectangles.forEach(...)\<close> over objects that are
  distinct (as in \<open>[new Rectangle(), new Rectangle(), new Square()]\<close>): the result is
  the objects as the loop leaves them and the areas passed to \<open>render\<close>, in order; a
  throw ends the loop.\<close>

definition LSP_Bad_callback :: "(number LSP_Bad_object, jsval) prog" where
  "LSP_Bad_callback =
     bind LSP_Bad_area_4_5 (\<lambda>area.
     bind (LSP_Bad_render area) (\<lambda>_.
     return area))"

fun LSP_Bad_renderLargeRectangles ::
  "number LSP_Bad_object list \<Rightarrow> (error + jsval list) \<times> number LSP_Bad_object list" where
  "LSP_Bad_renderLargeRectangles [] = (Inr [], [])"
| "LSP_Bad_renderLargeRectangles (rectangle # rectangles) =
     (case LSP_Bad_callback rectangle of
        (Inl e, r') \<Rightarrow> (Inl e, r' # rectangles)
      | (Inr area, r') \<Rightarrow>
          (case LSP_Bad_renderLargeRectangles rectangles of
             (Inl e, rs') \<Rightarrow> (Inl e, r' # rs')
           | (Inr areas, rs') \<Rightarrow> (Inr (area # areas), r' # rs')))"

text \<open>The operations of an object, as data, so that a sequence of calls is a list. The
  setters are called with any number: finite, infinite or \<open>NaN\<close>.\<close>

datatype LSP_Bad_op =
  SetColor jsval | Render jsval | SetWidth number | SetHeight number | GetArea

fun LSP_Bad_call :: "LSP_Bad_op \<Rightarrow> (number LSP_Bad_object, jsval) prog" where
  "LSP_Bad_call (SetColor c) = LSP_Bad_setColor c"
| "LSP_Bad_call (Render a) = LSP_Bad_render a"
| "LSP_Bad_call (SetWidth w) = LSP_Bad_setWidth w"
| "LSP_Bad_call (SetHeight h) = LSP_Bad_setHeight h"
| "LSP_Bad_call GetArea = LSP_Bad_getArea"





section \<open>Liskov Substitution Principle, ``Good''\<close>

text \<open>
  \<^verbatim>\<open>
  class Shape {
      setColor(color) { // ... }
      render(area) { // ... }
  }
  class Rectangle extends Shape {
      width; height;
      constructor(width, height) { super(); this.width = width; this.height = height; }
      getArea() { return this.width * this.height; }
  }
  class Square extends Shape {
      length;
      constructor(length) { super(); this.length = length; }
      getArea() { return this.length * this.length; }
  }
  \<close>
  The snippet creates shapes through the two subclasses only: an object is a
  rectangle with its \<open>width\<close> and \<open>height\<close>, or a square with its \<open>length\<close>. As in the
  ``Bad'' example the constructors store values of any type \<open>'v\<close>, and \<open>getArea\<close> is
  embedded for fields that hold numbers.
\<close>

datatype 'v LSP_Good_object = LSP_Good_Rectangle 'v 'v | LSP_Good_Square 'v

definition LSP_Good_Shape_setColor :: "jsval \<Rightarrow> ('w, jsval) prog" where
  "LSP_Good_Shape_setColor color = placeholder"

definition LSP_Good_Shape_render :: "jsval \<Rightarrow> ('w, jsval) prog" where
  "LSP_Good_Shape_render area = placeholder"

definition LSP_Good_Rectangle_constructor :: "'v \<Rightarrow> 'v \<Rightarrow> 'v LSP_Good_object" where
  "LSP_Good_Rectangle_constructor w h = LSP_Good_Rectangle w h"

definition LSP_Good_Square_constructor :: "'v \<Rightarrow> 'v LSP_Good_object" where
  "LSP_Good_Square_constructor l = LSP_Good_Square l"

text \<open>\<open>shape.getArea()\<close>: \<open>Rectangle.getArea\<close> for a rectangle, \<open>Square.getArea\<close>
  for a square.\<close>

fun LSP_Good_getArea :: "(number LSP_Good_object, jsval) prog" where
  "LSP_Good_getArea (LSP_Good_Rectangle w h) =
     (Inr (Num (js_times w h)), LSP_Good_Rectangle w h)"
| "LSP_Good_getArea (LSP_Good_Square l) = (Inr (Num (js_times l l)), LSP_Good_Square l)"

text \<open>
  \<^verbatim>\<open>
  function renderLargeShapes(shapes) {
      shapes.forEach(shape => {
          const area = shape.getArea();
          shape.render(area);
      });
  }
  \<close>
  As for \<open>renderLargeRectangles\<close>: the shapes as the loop leaves them and the areas
  passed to \<open>render\<close>.
\<close>

definition LSP_Good_callback :: "(number LSP_Good_object, jsval) prog" where
  "LSP_Good_callback =
     bind LSP_Good_getArea (\<lambda>area.
     bind (LSP_Good_Shape_render area) (\<lambda>_.
     return area))"

fun LSP_Good_renderLargeShapes ::
  "number LSP_Good_object list \<Rightarrow> (error + jsval list) \<times> number LSP_Good_object list" where
  "LSP_Good_renderLargeShapes [] = (Inr [], [])"
| "LSP_Good_renderLargeShapes (shape # shapes) =
     (case LSP_Good_callback shape of
        (Inl e, s') \<Rightarrow> (Inl e, s' # shapes)
      | (Inr area, s') \<Rightarrow>
          (case LSP_Good_renderLargeShapes shapes of
             (Inl e, ss') \<Rightarrow> (Inl e, s' # ss')
           | (Inr areas, ss') \<Rightarrow> (Inr (area # areas), s' # ss')))"

section \<open>Interface Segregation Principle, ``Bad''\<close>

text \<open>
  \<^verbatim>\<open>
  interface Notifier { notify()  attachFile() }
  class EmailNotifier implements Notifier {
      notify() { // ... }
      attachFile() { // ... }
  }
  class SMSNotifier implements Notifier {
      notify() { // ... }
      attachFile() { throw new Error(`SMS doesn't support attaching files`); }
  }
  \<close>
  Neither class has a field and neither method takes an argument, so a body acts on
  the rest of the program state \<open>'w\<close> only.
\<close>

definition ISP_Bad_EmailNotifier_notify :: "('w, jsval) prog" where
  "ISP_Bad_EmailNotifier_notify = placeholder"

definition ISP_Bad_EmailNotifier_attachFile :: "('w, jsval) prog" where
  "ISP_Bad_EmailNotifier_attachFile = placeholder"

definition ISP_Bad_SMSNotifier_notify :: "('w, jsval) prog" where
  "ISP_Bad_SMSNotifier_notify = placeholder"

definition ISP_Bad_SMSNotifier_attachFile :: "('w, jsval) prog" where
  "ISP_Bad_SMSNotifier_attachFile = throw (Error ''SMS doesn't support attaching files'')"

text \<open>The interface, as the classes that implement it; a call through a \<open>Notifier\<close>
  reference runs the body of the object's class.\<close>

datatype ISP_Bad_Notifier = ISP_Bad_EmailNotifier | ISP_Bad_SMSNotifier

fun ISP_Bad_notify :: "ISP_Bad_Notifier \<Rightarrow> ('w, jsval) prog" where
  "ISP_Bad_notify ISP_Bad_EmailNotifier = ISP_Bad_EmailNotifier_notify"
| "ISP_Bad_notify ISP_Bad_SMSNotifier = ISP_Bad_SMSNotifier_notify"

fun ISP_Bad_attachFile :: "ISP_Bad_Notifier \<Rightarrow> ('w, jsval) prog" where
  "ISP_Bad_attachFile ISP_Bad_EmailNotifier = ISP_Bad_EmailNotifier_attachFile"
| "ISP_Bad_attachFile ISP_Bad_SMSNotifier = ISP_Bad_SMSNotifier_attachFile"

section \<open>Interface Segregation Principle, ``Good''\<close>

text \<open>
  \<^verbatim>\<open>
  interface Notifier { notify() }
  interface Attacher { attachFile() }
  class EmailNotifier implements Notifier, Attacher {
      notify() { // ... }
      attachFile() { // ... }
  }
  class SMSNotifier implements Notifier { notify() { // ... } }
  \<close>
\<close>

definition ISP_Good_EmailNotifier_notify :: "('w, jsval) prog" where
  "ISP_Good_EmailNotifier_notify = placeholder"

definition ISP_Good_EmailNotifier_attachFile :: "('w, jsval) prog" where
  "ISP_Good_EmailNotifier_attachFile = placeholder"

definition ISP_Good_SMSNotifier_notify :: "('w, jsval) prog" where
  "ISP_Good_SMSNotifier_notify = placeholder"

section \<open>Dependency Inversion Principle\<close>

text \<open>
  \<^verbatim>\<open>
  class MySQLConnection {
      connect() {
          // handle the database connection
          return 'Database connection';
      }
  }
  class AppInit {
      private dbConnection;
      constructor(dbConnection: MySQLConnection) { this.dbConnection = dbConnection; }
  }
  \<close>
  In the ``Good'' version \<open>MySQLConnection implements DBConnectionInterface\<close> (an
  interface with the one method \<open>connect()\<close>), and the constructor of \<open>AppInit\<close>
  takes a \<open>DBConnectionInterface\<close>; the bodies are the same.
\<close>

definition DIP_Bad_MySQLConnection_connect :: "('w, jsval) prog" where
  "DIP_Bad_MySQLConnection_connect = return (Str ''Database connection'')"

definition DIP_Good_MySQLConnection_connect :: "('w, jsval) prog" where
  "DIP_Good_MySQLConnection_connect = return (Str ''Database connection'')"

text \<open>An \<open>AppInit\<close> object is its one field; \<open>'c\<close> is the type of the connection
  object it is given.\<close>

record 'c DIP_AppInit =
  dbConnection :: 'c

definition DIP_Bad_AppInit_constructor :: "'c \<Rightarrow> 'c DIP_AppInit" where
  "DIP_Bad_AppInit_constructor c = \<lparr>dbConnection = c\<rparr>"

definition DIP_Good_AppInit_constructor :: "'c \<Rightarrow> 'c DIP_AppInit" where
  "DIP_Good_AppInit_constructor c = \<lparr>dbConnection = c\<rparr>"

section \<open>The text of the snippets\<close>

text \<open>
  The README shows each example in fenced code blocks, and three standalone files
  repeat the SRP and OCP examples. To compare them, each is taken as the list of its
  lines: the lines of a block are those between its fences, and a file is split at its
  line breaks (none of the files ends with one).
\<close>

text \<open>README.md, lines 24 to 36: the block of the SRP ``Bad'' example.\<close>

definition README_SRP_Bad :: "string list" where
  "README_SRP_Bad =
    [''class Salary {'',
     ''    calculateSalary(){'',
     ''        // ...'',
     ''    }'',
     '''',
     ''    printPaycheck(){'',
     ''        // ...'',
     ''    }'',
     '''',
     ''    saveData(){'',
     ''        // ...'',
     ''    }'',
     ''}'']"

text \<open>README.md, lines 45 to 49, 53 to 57 and 61 to 65: the three blocks of the SRP ``Good'' example.\<close>

definition README_SRP_Good_1 :: "string list" where
  "README_SRP_Good_1 =
    [''class SalaryCalculate {'',
     ''    calculate(){'',
     ''        // ...'',
     ''    }'',
     ''}'']"

text \<open>The second block.\<close>

definition README_SRP_Good_2 :: "string list" where
  "README_SRP_Good_2 =
    [''class SalaryPaycheck {'',
     ''    print(){'',
     ''        // ...'',
     ''    }'',
     ''}'']"

text \<open>The third block.\<close>

definition README_SRP_Good_3 :: "string list" where
  "README_SRP_Good_3 =
    [''class SalaryPersistence {'',
     ''    save(){'',
     ''        // ...'',
     ''    }'',
     ''}'']"

text \<open>README.md, lines 88 to 98 and 102 to 117: the two blocks of the OCP ``Bad'' example.\<close>

definition README_OCP_Bad_1 :: "string list" where
  "README_OCP_Bad_1 =
    [''class Employee {'',
     ''    selectedNotifyChannel: string;'',
     '''',
     ''    sendEmailNotification() {'',
     ''        // ...'',
     ''    }'',
     '''',
     ''    sendSMSNotification() {'',
     ''        // ...'',
     ''    }'',
     ''}'']"

text \<open>The second block.\<close>

definition README_OCP_Bad_2 :: "string list" where
  "README_OCP_Bad_2 =
    [''class NotifyManager {'',
     ''    notifyAll(employees: Employee[]) {'',
     ''        for (const employee of employees) {'',
     ''            switch (employee.selectedNotifyChannel) {'',
     ''                case 'SMS':'',
     ''                    employee.sendSMSNotification();'',
     ''                    break;'',
     ''                case 'Email':'',
     ''                    employee.sendEmailNotification();'',
     ''                    break;'',
     ''                default:'',
     ''                    throw new Error('Unknown Channel');'',
     ''            }'',
     ''        }'',
     ''    }'',
     ''}'']"

text \<open>README.md, lines 126 to 140, 144 to 157 and 161 to 167: the three blocks of the OCP ``Good'' example.\<close>

definition README_OCP_Good_1 :: "string list" where
  "README_OCP_Good_1 =
    [''interface Notifier {'',
     ''    notify();'',
     ''}'',
     '''',
     ''class EmailNotifier implements Notifier {'',
     ''    notify() {'',
     ''        // ...'',
     ''    }'',
     ''}'',
     '''',
     ''class SMSNotifier implements Notifier {'',
     ''    notify() {'',
     ''        // ...'',
     ''    }'',
     ''}'']"

text \<open>The second block.\<close>

definition README_OCP_Good_2 :: "string list" where
  "README_OCP_Good_2 =
    [''class Employee {'',
     ''    private notifier;'',
     ''    public selectedNotifyChannel;'',
     '''',
     ''    // By EmployeeEntity class we will read employee preferences from DB and will'',
     ''    // initialize Employee with proper notifier regarding selectedNotifyChannel'',
     ''    constructor(notifier: Notifier) {'',
     ''        this.notifier = notifier;'',
     ''    }'',
     '''',
     ''    sendNotification() {'',
     ''        this.notifier.notify();'',
     ''    }'',
     ''}'']"

text \<open>The third block.\<close>

definition README_OCP_Good_3 :: "string list" where
  "README_OCP_Good_3 =
    [''class NotifyManager {'',
     ''    notifyAll(employees: Employee[]) {'',
     ''        for (const employee of employees) {'',
     ''            employee.sendNotification();'',
     ''        }'',
     ''    }'',
     ''}'']"

text \<open>The standalone file of the SRP example (\<open>src/unnamed/part_000\<close>), both variants.\<close>

definition file_part_000 :: "string list" where
  "file_part_000 =
    [''// Bad'',
     ''class Salary {'',
     '''',
     ''    calculateSalary(){'',
     ''        // ...'',
     ''    }'',
     '''',
     ''    printPaycheck(){'',
     ''        // ...'',
     ''    }'',
     '''',
     ''    saveData(){'',
     ''        // ...'',
     ''    }'',
     ''}'',
     '''',
     ''// Good'',
     ''class SalaryCalculate {'',
     ''    calculate(){'',
     ''        // ...'',
     ''    }'',
     ''}'',
     '''',
     ''class SalaryPaycheck {'',
     ''    print(){'',
     ''        // ...'',
     ''    }'',
     ''}'',
     '''',
     ''class SalaryPersistence {'',
     ''    save(){'',
     ''        // ...'',
     ''    }'',
     ''}'']"

text \<open>The standalone file of the OCP ``Bad'' example (\<open>src/unnamed/part_001\<close>).\<close>

definition file_part_001 :: "string list" where
  "file_part_001 =
    [''// Bad'',
     ''class Employee {'',
     ''    public selectedNotifyChannel;'',
     '''',
     ''    public sendEmailNotification() {'',
     ''        // ...'',
     ''    }'',
     '''',
     ''    public sendSMSNotification() {'',
     ''        // ...'',
     ''    }'',
     ''}'',
     '''',
     ''class NotifyManager {'',
     ''    notifyAll(employees: Employee[]) {'',
     ''        for (const employee of employees) {'',
     ''            switch (employee.selectedNotifyChannel) {'',
     ''                case 'SMS':'',
     ''                    employee.sendSMSNotification();'',
     ''                    break;'',
     ''                case 'Email':'',
     ''                    employee.sendEmailNotification();'',
     ''                    break;'',
     ''                default:'',
     ''                    throw new Error('Unknown Channel');'',
     ''            }'',
     ''        }'',
     ''    }'',
     ''}'']"

text \<open>The standalone file \<open>OpenClosedPrinciple-Good.ts\<close>.\<close>

definition file_OpenClosedPrinciple_Good_ts :: "string list" where
  "file_OpenClosedPrinciple_Good_ts =
    [''// Good'',
     ''interface Notifier {'',
     ''    notify();'',
     ''}'',
     '''',
     ''class EmailNotifier {'',
     ''    notify() {'',
     ''        // ...'',
     ''    }'',
     ''}'',
     '''',
     ''class SMSNotifier {'',
     ''    notify() {'',
     ''        // ...'',
     ''    }'',
     ''}'',
     '''',
     ''class Employee {'',
     ''    private notifier;'',
     ''    public selectedNotifyChannel;'',
     '''',
     ''    // By EmployeeEntity class we will read employee preferences from DB and will'',
     ''    // initialize Employee with proper notifier regarding selectedNotifyChannel'',
     ''    constructor(notifier: Notifier) {'',
     ''        this.notifier = notifier;'',
     ''    }'',
     '''',
     ''    sendNotification() {'',
     ''        this.notifier.notify();'',
     ''    }'',
     ''}'',
     '''',
     ''class NotifyManager {'',
     ''    notifyAll(employees: Employee[]) {'',
     ''        for (const employee of employees) {'',
     ''            employee.sendNotification();'',
     ''        }'',
     ''    }'',
     ''}'']"

text \<open>
  ``The file matches the blocks character for character'': the lines of the file are the
  lines of the blocks, one block after the other, with one empty line between two
  blocks.
\<close>

fun join_blocks :: "string list list \<Rightarrow> string list" where
  "join_blocks [] = []"
| "join_blocks [b] = b"
| "join_blocks (b # bs) = b @ [''''] @ join_blocks bs"

definition matches_blocks :: "string list \<Rightarrow> string list list \<Rightarrow> bool" where
  "matches_blocks file blocks = (file = join_blocks blocks)"

section \<open>Facts about numbers\<close>

text \<open>
  Powers of two and binary digits, the canonical form, and rounding where nothing is
  lost.
\<close>

lemma bits_le_iff: "bits n \<le> k \<longleftrightarrow> n < 2 ^ k"
proof (induction n arbitrary: k rule: bits.induct)
  case (1 n)
  show ?case
  proof (cases "n = 0")
    case True
    then show ?thesis by (simp add: bits.simps)
  next
    case False
    show ?thesis
    proof (cases k)
      case 0
      with False show ?thesis by (simp add: bits.simps [of n])
    next
      case (Suc j)
      from False have "bits n = Suc (bits (n div 2))" by (simp add: bits.simps [of n])
      with "1.IH" [OF False, of j] Suc show ?thesis
        by (simp add: div_less_iff_less_mult mult.commute)
    qed
  qed
qed

lemma canonical_odd: "odd m \<Longrightarrow> canonical m e = (m, e)"
  by (auto simp add: canonical.simps [of m e])

lemma canonical_shift: "m \<noteq> 0 \<Longrightarrow> canonical (m * 2 ^ k) e = canonical m (e + int k)"
proof (induction k arbitrary: e)
  case 0
  then show ?case by simp
next
  case (Suc k)
  have half: "(m * 2 ^ Suc k) div 2 = m * 2 ^ k" by simp
  from Suc.prems have "m * 2 ^ Suc k \<noteq> 0" "even (m * 2 ^ Suc k)" by simp_all
  then have "canonical (m * 2 ^ Suc k) e = canonical ((m * 2 ^ Suc k) div 2) (e + 1)"
    by (subst canonical.simps) simp
  with half have "canonical (m * 2 ^ Suc k) e = canonical (m * 2 ^ k) (e + 1)"
    by simp
  with Suc.IH [OF Suc.prems, of "e + 1"] show ?case by (simp add: add.assoc)
qed

lemma canonical_value:
  "m \<noteq> 0 \<Longrightarrow> \<exists>m' k. canonical m e = (m', e + int k) \<and> odd m' \<and> m = m' * 2 ^ k"
proof (induction m e rule: canonical.induct)
  case (1 m e)
  show ?case
  proof (cases "even m")
    case False
    then have "canonical m e = (m, e + int 0) \<and> odd m \<and> m = m * 2 ^ 0"
      by (simp add: canonical_odd)
    then show ?thesis by blast
  next
    case True
    with "1.prems" have nz: "m div 2 \<noteq> 0" by (auto elim!: evenE)
    from "1.IH" [OF "1.prems" True nz] obtain m' k where
      h: "canonical (m div 2) (e + 1) = (m', e + 1 + int k)" "odd m'" "m div 2 = m' * 2 ^ k"
      by blast
    from True "1.prems" have "canonical m e = canonical (m div 2) (e + 1)"
      by (simp add: canonical.simps [of m e])
    with h True have "canonical m e = (m', e + int (Suc k)) \<and> odd m' \<and> m = m' * 2 ^ Suc k"
      by (auto elim!: evenE)
    then show ?thesis by blast
  qed
qed

lemma round_double_exact:
  assumes "m \<noteq> 0" and "\<bar>m\<bar> < 2 ^ 53" and "0 \<le> e" and "\<bar>m\<bar> * 2 ^ nat e < 2 ^ 1024"
  shows "round_double m e negative = (case canonical m e of (m', e') \<Rightarrow> Double m' e')"
proof -
  define q where "q = max (e + int (bits (nat \<bar>m\<bar>)) - 53) (- 1074)"
  from assms(2) have "nat \<bar>m\<bar> < 2 ^ 53"
    by (simp add: nat_less_iff)
  then have "bits (nat \<bar>m\<bar>) \<le> 53"
    by (simp only: bits_le_iff)
  with assms(3) have q: "q \<le> e" "- 1074 \<le> q"
    by (simp_all add: q_def)
  define k where "k = nat (e - q)"
  from q have e: "e = q + int k" by (simp add: k_def)
  from assms(1) have nz: "m * 2 ^ k \<noteq> 0" by simp
  from q assms(3) have sum: "k + nat (q + 1074) = nat e + 1074"
    by (simp add: k_def)
  have "\<bar>m * 2 ^ k\<bar> * 2 ^ nat (q + 1074) = \<bar>m\<bar> * 2 ^ (k + nat (q + 1074))"
    by (simp add: abs_mult power_add mult.assoc)
  also have "\<dots> = \<bar>m\<bar> * 2 ^ nat e * 2 ^ 1074"
    by (simp only: sum power_add mult.assoc)
  also from assms(4) have "\<dots> < 2 ^ 1024 * 2 ^ 1074"
    by (rule mult_strict_right_mono) (simp only: zero_less_power zero_less_numeral)
  also have "(2::int) ^ 1024 * 2 ^ 1074 = 2 ^ 2098"
  proof -
    have "(1024::nat) + 1074 = 2098" by simp
    with power_add [of "2::int" 1024 1074] show ?thesis by (simp only:)
  qed
  finally have small: "\<not> 2 ^ 2098 \<le> \<bar>m * 2 ^ k\<bar> * 2 ^ nat (q + 1074)"
    by (simp only: not_le)
  from canonical_shift [OF assms(1), of k q] have canon: "canonical (m * 2 ^ k) q = canonical m e"
    by (simp only: e [symmetric])
  show ?thesis
    unfolding round_double_def q_def [symmetric] Let_def k_def [symmetric]
    by (simp only: assms(1) q(1) nz small canon if_False if_True)
qed

lemma num_positive:
  assumes "0 < n" and "n < 2 ^ 53"
  shows "num n = (case canonical n 0 of (m', e') \<Rightarrow> Double m' e')"
  unfolding num_def using assms by (intro round_double_exact) simp_all

lemma num_0: "num 0 = Double 0 0"
  by (simp add: num_def round_double_def signed_zero_def)

lemma num_shape:
  assumes "0 \<le> n" and "n < 2 ^ 53"
  shows "\<exists>m k. num n = Double m (int k) \<and> 0 \<le> m \<and> n = m * 2 ^ k \<and> (0 < n \<longrightarrow> odd m)"
proof (cases "n = 0")
  case True
  then have "num n = Double 0 (int 0) \<and> (0::int) \<le> 0 \<and> n = 0 * 2 ^ 0 \<and> (0 < n \<longrightarrow> odd (0::int))"
    by (simp add: num_0)
  then show ?thesis by blast
next
  case False
  with assms have pos: "0 < n" by simp
  from canonical_value [OF False, of 0] obtain m k where
    c: "canonical n 0 = (m, 0 + int k)" "odd m" "n = m * 2 ^ k" by blast
  from pos c(3) have "0 < m" by (simp add: zero_less_mult_iff)
  with num_positive [OF pos assms(2)] c show ?thesis by auto
qed

lemma js_times_num:
  assumes "0 \<le> a" and "0 \<le> b" and "a < 2 ^ 53" and "b < 2 ^ 53" and "a * b < 2 ^ 53"
  shows "js_times (num a) (num b) = num (a * b)"
proof -
  from num_shape [OF assms(1) assms(3)] obtain ma ka where
    a: "num a = Double ma (int ka)" "0 \<le> ma" "a = ma * 2 ^ ka" "0 < a \<longrightarrow> odd ma" by blast
  from num_shape [OF assms(2) assms(4)] obtain mb kb where
    b: "num b = Double mb (int kb)" "0 \<le> mb" "b = mb * 2 ^ kb" "0 < b \<longrightarrow> odd mb" by blast
  from a(1,2) b(1,2) have times: "js_times (num a) (num b) =
      round_double (ma * mb) (int ka + int kb) False"
    by (simp add: js_times_def is_infinite_def)
  show ?thesis
  proof (cases "a = 0 \<or> b = 0")
    case True
    with a(3) b(3) have "ma * mb = 0" by auto
    with True times show ?thesis
      by (auto simp add: round_double_def signed_zero_def num_0)
  next
    case False
    with assms have pos: "0 < a" "0 < b" by simp_all
    from pos a(4) b(4) have odd: "odd (ma * mb)" by simp
    from pos(1) a(3) have "0 < ma * 2 ^ ka" by (simp only:)
    then have "0 < ma" by (simp add: zero_less_mult_iff)
    moreover from pos(2) b(3) have "0 < mb * 2 ^ kb" by (simp only:)
    then have "0 < mb" by (simp add: zero_less_mult_iff)
    ultimately have mpos: "0 < ma * mb" by simp
    have prod: "a * b = (ma * mb) * 2 ^ (ka + kb)"
      by (simp add: a(3) b(3) power_add mult_ac)
    from pos have ab: "0 < a * b" by simp
    have le: "ma * mb \<le> a * b"
    proof -
      have "(1::int) \<le> 2 ^ (ka + kb)" by simp
      with mpos have "(ma * mb) * 1 \<le> (ma * mb) * 2 ^ (ka + kb)"
        by (intro mult_left_mono) simp_all
      with prod show ?thesis by simp
    qed
    from mpos have nz: "ma * mb \<noteq> 0" by (rule less_imp_neq [THEN not_sym])
    from le assms(5) mpos have small: "\<bar>ma * mb\<bar> < 2 ^ 53" by simp
    have "(2::int) ^ 53 \<le> 2 ^ 1024" by (rule power_increasing) simp_all
    with assms(5) prod mpos have range: "\<bar>ma * mb\<bar> * 2 ^ nat (int ka + int kb) < 2 ^ 1024"
      by (simp add: nat_add_distrib)
    from round_double_exact [OF nz small _ range] odd
    have left: "round_double (ma * mb) (int ka + int kb) False = Double (ma * mb) (int ka + int kb)"
      by (simp add: canonical_odd)
    from canonical_shift [OF nz, of "ka + kb" 0] odd prod
    have "canonical (a * b) 0 = (ma * mb, int ka + int kb)"
      by (simp add: canonical_odd)
    with num_positive [OF ab assms(5)] have "num (a * b) = Double (ma * mb) (int ka + int kb)"
      by simp
    with left times show ?thesis by simp
  qed
qed

lemmas number_eval = js_times_def num_def round_double_def bits.simps canonical.simps
  round_half_even_def signed_zero_def is_infinite_def is_zero_def Let_def

text \<open>
  For non-negative integers below \<open>2 ^ 53\<close> whose product is below \<open>2 ^ 53\<close>, \<open>*\<close> is
  the product of the integers; beyond, it rounds: \<open>94906267 * 94906267\<close> is
  \<open>9007199515875288\<close>, one less than the product of the integers.
\<close>

lemma js_times_rounds:
  "js_times (num 94906267) (num 94906267) = num 9007199515875288
   \<and> num 9007199515875288 = Double 1125899939484411 3
   \<and> (94906267::int) * 94906267 = 9007199515875289"
  by (simp add: number_eval)

lemma js_times_examples:
  "js_times (num 4) (num 5) = num 20"
  "js_times (num 5) (num 5) = num 25"
  "js_times (num 2) (num 3) = num 6"
  "js_times (num 4) (num 3) = num 12"
  by (simp_all add: js_times_num)

lemma js_times_NaN: "js_times NaN x = NaN \<and> js_times x NaN = NaN"
  by (simp add: js_times_def)


text \<open>
  Rounding always gives a double, so \<open>*\<close> and the integer literals stay within the
  numbers of the language.
\<close>

lemma div_upper: 
  fixes m b c :: int
  assumes "0 < b" and "m < c * b"
  shows "m div b < c"
proof -
  have "m = b * (m div b) + m mod b" by simp
  moreover from assms(1) have "0 \<le> m mod b" by simp
  ultimately have "b * (m div b) \<le> m" by linarith
  with assms(2) have "b * (m div b) < b * c" by (simp add: mult.commute)
  with assms(1) show ?thesis by (simp only: mult_less_cancel_left_pos)
qed

lemma div_lower:
  fixes m b c :: int
  assumes "0 < b" and "- (c * b) < m"
  shows "- c \<le> m div b"
proof -
  have "m = b * (m div b) + m mod b" by simp
  moreover from assms(1) have "m mod b < b" by simp
  ultimately have "m < b * (m div b) + b" by linarith
  with assms(2) have "b * (- c) < b * (m div b + 1)"
    by (simp add: algebra_simps)
  with assms(1) have "- c < m div b + 1" by (simp only: mult_less_cancel_left_pos)
  then show ?thesis by simp
qed

lemma round_half_even_bound:
  assumes "\<bar>m\<bar> < 2 ^ (s + j)"
  shows "\<bar>round_half_even m s\<bar> \<le> 2 ^ j"
proof -
  define q where "q = m div 2 ^ s"
  have pos: "(0::int) < 2 ^ s" by simp
  from assms have up: "m < 2 ^ j * 2 ^ s" and lo: "- (2 ^ j * 2 ^ s) < m"
    by (simp_all add: power_add mult.commute abs_less_iff)
  from div_upper [OF pos up] have "q < 2 ^ j" by (simp add: q_def)
  moreover from div_lower [OF pos lo] have "- (2 ^ j) \<le> q" by (simp add: q_def)
  ultimately show ?thesis
    unfolding round_half_even_def Let_def q_def [symmetric]
    by (auto simp add: abs_le_iff)
qed

lemma odd_abs_less:
  fixes m :: int
  assumes "odd m" and "\<bar>m\<bar> \<le> 2 ^ 53"
  shows "\<bar>m\<bar> < 2 ^ 53"
proof -
  from assms(1) have "\<bar>m\<bar> \<noteq> 2 ^ 53"
    by (metis even_abs_add_iff even_add even_numeral even_power zero_less_numeral)
  with assms(2) show ?thesis by simp
qed

lemma round_double_is_double: "is_double (round_double m e negative)"
proof (cases "m = 0")
  case True
  then show ?thesis
    by (simp add: round_double_def signed_zero_def is_double_def)
next
  case False
  define n where "n = bits (nat \<bar>m\<bar>)"
  define q where "q = max (e + int n - 53) (- 1074)"
  define m' where "m' = (if q \<le> e then m * 2 ^ nat (e - q) else round_half_even m (nat (q - e)))"
  have unfold: "round_double m e negative =
      (if m' = 0 then signed_zero negative
       else if 2 ^ 2098 \<le> \<bar>m'\<bar> * 2 ^ nat (q + 1074)
       then (if m' < 0 then NegInfinity else PosInfinity)
       else (case canonical m' q of (m'', e'') \<Rightarrow> Double m'' e''))"
    using False by (simp only: round_double_def Let_def n_def q_def m'_def if_False)
  have q: "- 1074 \<le> q" "e + int n - 53 \<le> q" by (simp_all add: q_def)
  have "nat \<bar>m\<bar> < 2 ^ n"
    using bits_le_iff [of "nat \<bar>m\<bar>" n] by (simp add: n_def)
  then have m: "\<bar>m\<bar> < 2 ^ n"
    by (simp add: nat_less_iff)
  have bound: "\<bar>m'\<bar> \<le> 2 ^ 53"
  proof (cases "q \<le> e")
    case True
    define k where "k = nat (e - q)"
    from True q(2) have nk: "n + k \<le> 53" by (simp add: k_def)
    from m have "\<bar>m\<bar> * 2 ^ k < 2 ^ n * 2 ^ k" by simp
    also have "\<dots> = (2::int) ^ (n + k)" by (simp add: power_add)
    also from nk have "\<dots> \<le> (2::int) ^ 53" by (intro power_increasing) simp_all
    finally show ?thesis using True by (simp add: m'_def k_def abs_mult)
  next
    case False
    define s where "s = nat (q - e)"
    from False q(2) have "n \<le> s + 53" by (simp add: s_def)
    then have "(2::int) ^ n \<le> 2 ^ (s + 53)" by (intro power_increasing) simp_all
    with m have "\<bar>m\<bar> < 2 ^ (s + 53)" by (rule less_le_trans)
    from round_half_even_bound [OF this] False show ?thesis by (simp add: m'_def s_def)
  qed
  show ?thesis
  proof (cases "m' = 0 \<or> 2 ^ 2098 \<le> \<bar>m'\<bar> * 2 ^ nat (q + 1074)")
    case True
    then show ?thesis
      by (auto simp only: unfold signed_zero_def is_double_def number.case split: if_splits)
  next
    case False
    then have nz: "m' \<noteq> 0" and range: "\<bar>m'\<bar> * 2 ^ nat (q + 1074) < 2 ^ 2098"
      by (simp_all only: de_Morgan_disj not_le not_False_eq_True)
    from canonical_value [OF nz, of q] obtain m'' k where
      c: "canonical m' q = (m'', q + int k)" "odd m''" "m' = m'' * 2 ^ k" by blast
    have "\<bar>m''\<bar> * 1 \<le> \<bar>m''\<bar> * 2 ^ k"
      by (intro mult_left_mono) simp_all
    with c(3) bound have "\<bar>m''\<bar> \<le> 2 ^ 53" by (simp add: abs_mult)
    with c(2) have small: "\<bar>m''\<bar> < 2 ^ 53" by (rule odd_abs_less)
    from q(1) have "nat (q + int k + 1074) = k + nat (q + 1074)" by simp
    then have "\<bar>m''\<bar> * 2 ^ nat (q + int k + 1074) = \<bar>m'\<bar> * 2 ^ nat (q + 1074)"
      by (simp add: c(3) abs_mult power_add mult.assoc)
    with range have r: "\<bar>m''\<bar> * 2 ^ nat (q + int k + 1074) < 2 ^ 2098" by (simp only:)
    from q(1) have "- 1074 \<le> q + int k" by simp
    with c(2) small r have "is_double (Double m'' (q + int k))"
      by (simp only: is_double_def number.case simp_thms)
    with False c(1) show ?thesis
      by (simp only: unfold de_Morgan_disj if_False prod.case simp_thms)
  qed
qed

lemma js_times_is_double: "is_double (js_times x y)"
  by (simp add: js_times_def round_double_is_double) (simp add: is_double_def)

lemma num_is_double: "is_double (num n)"
  by (simp add: num_def round_double_is_double)

section \<open>Facts about the embedded methods\<close>

lemmas prog_defs = return_def throw_def bind_def placeholder_def

lemmas LSP_Bad_defs =
  LSP_Bad_Rectangle_constructor_def LSP_Bad_new_Rectangle_def LSP_Bad_new_Square_def
  LSP_Bad_Rectangle_setColor_def LSP_Bad_Rectangle_render_def
  LSP_Bad_Rectangle_setWidth_def LSP_Bad_Rectangle_setHeight_def
  LSP_Bad_Rectangle_getArea_def LSP_Bad_Square_setWidth_def LSP_Bad_Square_setHeight_def
  LSP_Bad_setColor_def LSP_Bad_render_def LSP_Bad_setWidth_def LSP_Bad_setHeight_def
  LSP_Bad_getArea_def

lemma LSP_Bad_call_returns: "\<exists>v. fst (LSP_Bad_call c this) = Inr v"
  by (cases c) (simp_all add: LSP_Bad_defs prog_defs split: LSP_Bad_class.split)

lemmas OCP_Bad_defs =
  OCP_Bad_Employee_sendEmailNotification_def OCP_Bad_Employee_sendSMSNotification_def
  OCP_Bad_switch_def OCP_Bad_known_channel_def OCP_Bad_matching_call_def

lemma OCP_Bad_switch_run:
  "OCP_Bad_switch e (log, w) =
     (if OCP_Bad_known_channel e then (Inr Undefined, (log @ [OCP_Bad_matching_call e], w))
      else (Inl (Error ''Unknown Channel''), (log, w)))"
  by (simp add: OCP_Bad_defs call_def prog_defs)

text \<open>The loop, in closed form: the employees before the first one with an unknown
  channel are notified, each through the method of its channel.\<close>

lemma OCP_Bad_notifyAll_run:
  "OCP_Bad_NotifyManager_notifyAll es (log, w) =
     (if \<forall>e\<in>set es. OCP_Bad_known_channel e
      then (Inr Undefined, (log @ map OCP_Bad_matching_call es, w))
      else (Inl (Error ''Unknown Channel''),
            (log @ map OCP_Bad_matching_call (takeWhile OCP_Bad_known_channel es), w)))"
proof (induction es arbitrary: log)
  case Nil
  show ?case by (simp add: return_def)
next
  case (Cons e es)
  show ?case
    by (simp add: bind_def OCP_Bad_switch_run Cons.IH)
qed

lemmas OCP_Good_defs =
  OCP_Good_EmailNotifier_notify_def OCP_Good_SMSNotifier_notify_def
  OCP_Good_new_EmailNotifier_def OCP_Good_new_SMSNotifier_def
  OCP_Good_Employee_constructor_def OCP_Good_Employee_sendNotification_def

lemma OCP_Good_sendNotification_run:
  "OCP_Good_Employee_sendNotification e (log, w) =
     (case notify (notifier e) w of
        (Inl err, w') \<Rightarrow> (Inl err, (log @ [Call_notify (notifier e)], w'))
      | (Inr v, w') \<Rightarrow> (Inr Undefined, (log @ [Call_notify (notifier e)], w')))"
  by (simp add: OCP_Good_Employee_sendNotification_def call_def unlogged_def prog_defs
      split: prod.split sum.split)

lemma OCP_Good_notifyAll_returns:
  "\<forall>e\<in>set es. OCP_Good_notify_returns (notifier e) \<Longrightarrow>
   OCP_Good_NotifyManager_notifyAll es (log, w) =
     (Inr Undefined, (log @ OCP_Good_calls_of es, OCP_Good_state_after es w))"
proof (induction es arbitrary: log w)
  case Nil
  show ?case by (simp add: return_def OCP_Good_calls_of_def)
next
  case (Cons e es)
  from Cons.prems have "\<exists>v. fst (notify (notifier e) w) = Inr v"
    by (simp add: OCP_Good_notify_returns_def)
  then obtain v where v: "fst (notify (notifier e) w) = Inr v" ..
  from Cons.prems have rest: "\<forall>e\<in>set es. OCP_Good_notify_returns (notifier e)"
    by simp
  from v show ?case
    by (cases "notify (notifier e) w")
       (simp add: bind_def call_def OCP_Good_sendNotification_run Cons.IH [OF rest]
          OCP_Good_calls_of_def)
qed

lemma OCP_Good_notifyAll_throws:
  "fst (OCP_Good_NotifyManager_notifyAll es (log, w)) = Inl err \<Longrightarrow>
   \<exists>e\<in>set es. \<exists>w'. fst (notify (notifier e) w') = Inl err"
proof (induction es arbitrary: log w)
  case Nil
  then show ?case by (simp add: return_def)
next
  case (Cons e es)
  obtain r w' where run: "notify (notifier e) w = (r, w')"
    by (cases "notify (notifier e) w")
  show ?case
  proof (cases r)
    case (Inl err')
    with run Cons.prems have "err' = err"
      by (simp add: bind_def call_def OCP_Good_sendNotification_run)
    with run Inl have "fst (notify (notifier e) w) = Inl err" by simp
    then show ?thesis by auto
  next
    case (Inr v)
    with run Cons.prems
    have "fst (OCP_Good_NotifyManager_notifyAll es
                (log @ [Call_sendNotification e, Call_notify (notifier e)], w')) = Inl err"
      by (simp add: bind_def call_def OCP_Good_sendNotification_run)
    from Cons.IH [OF this] show ?thesis by auto
  qed
qed

lemma OCP_Good_repository_notifiers:
  "notifier e = OCP_Good_new_EmailNotifier \<or> notifier e = OCP_Good_new_SMSNotifier \<Longrightarrow>
   OCP_Good_notify_returns (notifier e) \<and> snd (notify (notifier e) w) = w"
  by (auto simp add: OCP_Good_notify_returns_def OCP_Good_defs prog_defs)

lemma OCP_Good_state_after_repository:
  "\<forall>e\<in>set es. notifier e = OCP_Good_new_EmailNotifier \<or> notifier e = OCP_Good_new_SMSNotifier \<Longrightarrow>
   OCP_Good_state_after es w = w"
  by (induction es arbitrary: w) (simp_all add: OCP_Good_repository_notifiers)

lemmas placeholder_method_defs =
  SRP_Bad_Salary_calculateSalary_def SRP_Bad_Salary_printPaycheck_def SRP_Bad_Salary_saveData_def
  SRP_Good_SalaryCalculate_calculate_def SRP_Good_SalaryPaycheck_print_def
  SRP_Good_SalaryPersistence_save_def
  OCP_Bad_Employee_sendEmailNotification_def OCP_Bad_Employee_sendSMSNotification_def
  OCP_Good_EmailNotifier_notify_def OCP_Good_SMSNotifier_notify_def
  LSP_Bad_Rectangle_setColor_def LSP_Bad_Rectangle_render_def
  LSP_Good_Shape_setColor_def LSP_Good_Shape_render_def
  ISP_Bad_EmailNotifier_notify_def ISP_Bad_EmailNotifier_attachFile_def
  ISP_Bad_SMSNotifier_notify_def
  ISP_Good_EmailNotifier_notify_def ISP_Good_EmailNotifier_attachFile_def
  ISP_Good_SMSNotifier_notify_def

lemma OCP_Good_sendNotification_ignores_channel:
  "OCP_Good_Employee_sendNotification (e\<lparr>selectedNotifyChannel := ch\<rparr>)
     = OCP_Good_Employee_sendNotification e"
  by (simp add: OCP_Good_Employee_sendNotification_def)

lemma OCP_Good_notifyAll_ignores_channel:
  "fst (OCP_Good_NotifyManager_notifyAll (map (\<lambda>e. e\<lparr>selectedNotifyChannel := f e\<rparr>) es) (log, w))
     = fst (OCP_Good_NotifyManager_notifyAll es (log', w))
   \<and> snd (snd (OCP_Good_NotifyManager_notifyAll
                 (map (\<lambda>e. e\<lparr>selectedNotifyChannel := f e\<rparr>) es) (log, w)))
     = snd (snd (OCP_Good_NotifyManager_notifyAll es (log', w)))"
proof (induction es arbitrary: log log' w)
  case Nil
  show ?case by (simp add: return_def)
next
  case (Cons e es)
  obtain r w' where run: "notify (notifier e) w = (r, w')"
    by (cases "notify (notifier e) w")
  show ?case
  proof (cases r)
    case (Inl err)
    with run show ?thesis
      by (simp add: bind_def call_def OCP_Good_sendNotification_run)
  next
    case (Inr v)
    with run Cons.IH show ?thesis
      by (simp add: bind_def call_def OCP_Good_sendNotification_run)
  qed
qed





lemma num_0_not_NaN: "num 0 \<noteq> NaN"
  by (simp add: num_0)

lemma OCP_Good_notifyAll_append:
  "OCP_Good_all_return es1 w \<Longrightarrow>
   OCP_Good_NotifyManager_notifyAll (es1 @ es2) (log, w) =
     OCP_Good_NotifyManager_notifyAll es2
       (log @ OCP_Good_calls_of es1, OCP_Good_state_after es1 w)"
proof (induction es1 arbitrary: log w)
  case Nil
  show ?case by (simp add: OCP_Good_calls_of_def)
next
  case (Cons e es1)
  obtain r w' where run: "notify (notifier e) w = (r, w')"
    by (cases "notify (notifier e) w")
  with Cons.prems obtain v where r: "r = Inr v" and rest: "OCP_Good_all_return es1 w'"
    by (cases r) simp_all
  from run r Cons.IH [OF rest] show ?case
    by (simp add: bind_def call_def OCP_Good_sendNotification_run OCP_Good_calls_of_def)
qed

lemma OCP_Good_notifyAll_all_return:
  "OCP_Good_all_return es w \<Longrightarrow>
   OCP_Good_NotifyManager_notifyAll es (log, w) =
     (Inr Undefined, (log @ OCP_Good_calls_of es, OCP_Good_state_after es w))"
  using OCP_Good_notifyAll_append [of es w "[]" log] by (simp add: return_def)

lemma OCP_Good_notifyAll_first_throw:
  assumes "OCP_Good_all_return es1 w"
    and "notify (notifier e) (OCP_Good_state_after es1 w) = (Inl err, w')"
  shows "OCP_Good_NotifyManager_notifyAll (es1 @ e # es2) (log, w) =
     (Inl err,
      (log @ OCP_Good_calls_of es1 @ [Call_sendNotification e, Call_notify (notifier e)], w'))"
  using OCP_Good_notifyAll_append [OF assms(1), of "e # es2" log] assms(2)
  by (simp add: bind_def call_def OCP_Good_sendNotification_run)

lemma OCP_Good_notifyAll_final_state:
  "snd (snd (OCP_Good_NotifyManager_notifyAll es (log, w))) = OCP_Good_final_state es w"
proof (induction es arbitrary: log w)
  case Nil
  show ?case by (simp add: return_def)
next
  case (Cons e es)
  obtain r w' where run: "notify (notifier e) w = (r, w')"
    by (cases "notify (notifier e) w")
  with Cons.IH show ?case
    by (cases r) (simp_all add: bind_def call_def OCP_Good_sendNotification_run)
qed

lemma OCP_Good_sendNotification_state:
  "snd (snd (OCP_Good_Employee_sendNotification e (log, w))) = snd (notify (notifier e) w)"
  by (simp add: OCP_Good_sendNotification_run split: prod.split sum.split)

lemma OCP_Bad_notifyAll_state:
  "snd (snd (OCP_Bad_NotifyManager_notifyAll es (log, w))) = w"
  by (simp add: OCP_Bad_notifyAll_run)

section \<open>The claims\<close>

subsection \<open>C1: which bodies are placeholders\<close>

text \<open>
  Claim C1, as stated, fails: not every method body is an empty placeholder. In the LSP
  ``Bad'' example \<open>Rectangle.getArea\<close> reads both fields and returns their product
  (6 for a 2 by 3 rectangle, where a placeholder would return \<open>undefined\<close>), and in the
  DIP examples \<open>MySQLConnection.connect\<close> returns the string ``Database connection''.
\<close>

theorem C1_every_body_is_a_placeholder_counterexample:
  "LSP_Bad_Rectangle_getArea \<lparr>cls = Rectangle, width = num 2, height = num 3\<rparr>
     = (Inr (Num (num 6)), \<lparr>cls = Rectangle, width = num 2, height = num 3\<rparr>)
   \<and> LSP_Bad_Rectangle_getArea \<lparr>cls = Rectangle, width = num 2, height = num 3\<rparr>
     \<noteq> placeholder \<lparr>cls = Rectangle, width = num 2, height = num 3\<rparr>
   \<and> DIP_Bad_MySQLConnection_connect () = (Inr (Str ''Database connection''), ())
   \<and> DIP_Bad_MySQLConnection_connect () \<noteq> placeholder ()
   \<and> DIP_Good_MySQLConnection_connect () \<noteq> placeholder ()"
  by (simp add: LSP_Bad_Rectangle_getArea_def DIP_Bad_MySQLConnection_connect_def
        DIP_Good_MySQLConnection_connect_def prog_defs js_times_examples)

text \<open>
  Claim C1, amended. These methods have an empty placeholder body, which computes
  nothing, returns \<open>undefined\<close>, changes no field and throws nothing: the three methods
  of \<open>Salary\<close>, \<open>SalaryCalculate.calculate\<close>, \<open>SalaryPaycheck.print\<close>,
  \<open>SalaryPersistence.save\<close>, the OCP ``Bad'' \<open>Employee.sendEmailNotification\<close> and
  \<open>sendSMSNotification\<close>, the OCP ``Good'' \<open>EmailNotifier.notify\<close> and
  \<open>SMSNotifier.notify\<close>, \<open>setColor\<close> and \<open>render\<close> of the LSP ``Bad'' \<open>Rectangle\<close>
  and of the LSP ``Good'' \<open>Shape\<close>, and in both ISP examples \<open>EmailNotifier.notify\<close>,
  \<open>EmailNotifier.attachFile\<close> and \<open>SMSNotifier.notify\<close>. The other methods do work:
  the LSP ``Bad'' constructor sets both fields to 0, the setters of \<open>Rectangle\<close> and
  \<open>Square\<close> assign the fields the value they are given (of any kind), every
  \<open>getArea\<close> returns the product of the numbers in its fields as \<open>*\<close> computes it on
  doubles (\<open>js_times\<close>: 6 for 2 and 3, and rounded where the exact product is no
  double), the ISP
  ``Bad'' \<open>SMSNotifier.attachFile\<close> throws, \<open>MySQLConnection.connect\<close> returns
  ``Database connection'', the constructors of \<open>AppInit\<close> and of the OCP ``Good''
  \<open>Employee\<close> store their argument, the OCP ``Good'' \<open>sendNotification\<close> calls
  \<open>notify()\<close> and \<open>notifyAll\<close> calls \<open>sendNotification\<close>, and the OCP ``Bad''
  \<open>notifyAll\<close> calls the send method of the channel or throws.
\<close>

theorem C1_placeholder_bodies_and_the_rest:
  "placeholder w = (Inr Undefined, w)
   \<and> SRP_Bad_Salary_calculateSalary = placeholder
   \<and> SRP_Bad_Salary_printPaycheck = placeholder
   \<and> SRP_Bad_Salary_saveData = placeholder
   \<and> SRP_Good_SalaryCalculate_calculate = placeholder
   \<and> SRP_Good_SalaryPaycheck_print = placeholder
   \<and> SRP_Good_SalaryPersistence_save = placeholder
   \<and> OCP_Bad_Employee_sendEmailNotification employee = placeholder
   \<and> OCP_Bad_Employee_sendSMSNotification employee = placeholder
   \<and> OCP_Good_EmailNotifier_notify = placeholder
   \<and> OCP_Good_SMSNotifier_notify = placeholder
   \<and> LSP_Bad_Rectangle_setColor color = placeholder
   \<and> LSP_Bad_Rectangle_render area = placeholder
   \<and> LSP_Good_Shape_setColor color = placeholder
   \<and> LSP_Good_Shape_render area = placeholder
   \<and> ISP_Bad_EmailNotifier_notify = placeholder
   \<and> ISP_Bad_EmailNotifier_attachFile = placeholder
   \<and> ISP_Bad_SMSNotifier_notify = placeholder
   \<and> ISP_Good_EmailNotifier_notify = placeholder
   \<and> ISP_Good_EmailNotifier_attachFile = placeholder
   \<and> ISP_Good_SMSNotifier_notify = placeholder
   \<and> LSP_Bad_Rectangle_constructor c = \<lparr>cls = c, width = num 0, height = num 0\<rparr>
   \<and> LSP_Bad_Rectangle_setWidth x s = (Inr Undefined, s\<lparr>width := x\<rparr>)
   \<and> LSP_Bad_Rectangle_setHeight x s = (Inr Undefined, s\<lparr>height := x\<rparr>)
   \<and> LSP_Bad_Square_setWidth x s = (Inr Undefined, s\<lparr>width := x, height := x\<rparr>)
   \<and> LSP_Bad_Square_setHeight x s = (Inr Undefined, s\<lparr>width := x, height := x\<rparr>)
   \<and> LSP_Bad_Rectangle_getArea r = (Inr (Num (js_times (width r) (height r))), r)
   \<and> LSP_Good_getArea (LSP_Good_Rectangle_constructor a b)
       = (Inr (Num (js_times a b)), LSP_Good_Rectangle_constructor a b)
   \<and> LSP_Good_getArea (LSP_Good_Square_constructor l)
       = (Inr (Num (js_times l l)), LSP_Good_Square_constructor l)
   \<and> ISP_Bad_SMSNotifier_attachFile w = (Inl (Error ''SMS doesn't support attaching files''), w)
   \<and> DIP_Bad_MySQLConnection_connect w = (Inr (Str ''Database connection''), w)
   \<and> DIP_Good_MySQLConnection_connect w = (Inr (Str ''Database connection''), w)
   \<and> dbConnection (DIP_Bad_AppInit_constructor d) = d
   \<and> dbConnection (DIP_Good_AppInit_constructor d) = d
   \<and> notifier (OCP_Good_Employee_constructor n) = n
   \<and> OCP_Good_Employee_sendNotification e (log, w') =
       (case notify (notifier e) w' of
          (Inl err, w'') \<Rightarrow> (Inl err, (log @ [Call_notify (notifier e)], w''))
        | (Inr v, w'') \<Rightarrow> (Inr Undefined, (log @ [Call_notify (notifier e)], w'')))
   \<and> OCP_Good_NotifyManager_notifyAll [e] (log, w') =
       (case notify (notifier e) w' of
          (Inl err, w'') \<Rightarrow>
            (Inl err, (log @ [Call_sendNotification e, Call_notify (notifier e)], w''))
        | (Inr v, w'') \<Rightarrow>
            (Inr Undefined, (log @ [Call_sendNotification e, Call_notify (notifier e)], w'')))
   \<and> OCP_Bad_NotifyManager_notifyAll [employee] (log', w) =
       (if OCP_Bad_Employee.selectedNotifyChannel employee = Str ''SMS''
        then (Inr Undefined, (log' @ [Call_sendSMSNotification employee], w))
        else if OCP_Bad_Employee.selectedNotifyChannel employee = Str ''Email''
        then (Inr Undefined, (log' @ [Call_sendEmailNotification employee], w))
        else (Inl (Error ''Unknown Channel''), (log', w)))"
proof -
  have empty: "SRP_Bad_Salary_calculateSalary = placeholder"
      "SRP_Bad_Salary_printPaycheck = placeholder"
      "SRP_Bad_Salary_saveData = placeholder"
      "SRP_Good_SalaryCalculate_calculate = placeholder"
      "SRP_Good_SalaryPaycheck_print = placeholder"
      "SRP_Good_SalaryPersistence_save = placeholder"
      "OCP_Bad_Employee_sendEmailNotification employee = placeholder"
      "OCP_Bad_Employee_sendSMSNotification employee = placeholder"
      "OCP_Good_EmailNotifier_notify = placeholder"
      "OCP_Good_SMSNotifier_notify = placeholder"
      "LSP_Bad_Rectangle_setColor color = placeholder"
      "LSP_Bad_Rectangle_render area = placeholder"
      "LSP_Good_Shape_setColor color = placeholder"
      "LSP_Good_Shape_render area = placeholder"
      "ISP_Bad_EmailNotifier_notify = placeholder"
      "ISP_Bad_EmailNotifier_attachFile = placeholder"
      "ISP_Bad_SMSNotifier_notify = placeholder"
      "ISP_Good_EmailNotifier_notify = placeholder"
      "ISP_Good_EmailNotifier_attachFile = placeholder"
      "ISP_Good_SMSNotifier_notify = placeholder"
    by (simp_all only: placeholder_method_defs)
  have lsp: "LSP_Bad_Rectangle_constructor c = \<lparr>cls = c, width = num 0, height = num 0\<rparr>"
      "LSP_Bad_Rectangle_setWidth x s = (Inr Undefined, s\<lparr>width := x\<rparr>)"
      "LSP_Bad_Rectangle_setHeight x s = (Inr Undefined, s\<lparr>height := x\<rparr>)"
      "LSP_Bad_Square_setWidth x s = (Inr Undefined, s\<lparr>width := x, height := x\<rparr>)"
      "LSP_Bad_Square_setHeight x s = (Inr Undefined, s\<lparr>width := x, height := x\<rparr>)"
      "LSP_Bad_Rectangle_getArea r = (Inr (Num (js_times (width r) (height r))), r)"
      "LSP_Good_getArea (LSP_Good_Rectangle_constructor a b)
         = (Inr (Num (js_times a b)), LSP_Good_Rectangle_constructor a b)"
      "LSP_Good_getArea (LSP_Good_Square_constructor l)
         = (Inr (Num (js_times l l)), LSP_Good_Square_constructor l)"
    by (simp_all add: LSP_Bad_defs LSP_Good_Rectangle_constructor_def
          LSP_Good_Square_constructor_def)
  have rest: "placeholder w = (Inr Undefined, w)"
      "ISP_Bad_SMSNotifier_attachFile w = (Inl (Error ''SMS doesn't support attaching files''), w)"
      "DIP_Bad_MySQLConnection_connect w = (Inr (Str ''Database connection''), w)"
      "DIP_Good_MySQLConnection_connect w = (Inr (Str ''Database connection''), w)"
      "dbConnection (DIP_Bad_AppInit_constructor d) = d"
      "dbConnection (DIP_Good_AppInit_constructor d) = d"
      "notifier (OCP_Good_Employee_constructor n) = n"
    by (simp_all add: ISP_Bad_SMSNotifier_attachFile_def DIP_Bad_MySQLConnection_connect_def
          DIP_Good_MySQLConnection_connect_def DIP_Bad_AppInit_constructor_def
          DIP_Good_AppInit_constructor_def OCP_Good_Employee_constructor_def prog_defs)
  have good: "OCP_Good_NotifyManager_notifyAll [e] (log, w') =
       (case notify (notifier e) w' of
          (Inl err, w'') \<Rightarrow>
            (Inl err, (log @ [Call_sendNotification e, Call_notify (notifier e)], w''))
        | (Inr v, w'') \<Rightarrow>
            (Inr Undefined, (log @ [Call_sendNotification e, Call_notify (notifier e)], w'')))"
    by (simp add: bind_def call_def return_def OCP_Good_sendNotification_run
          split: prod.split sum.split)
  have bad: "OCP_Bad_NotifyManager_notifyAll [employee] (log', w) =
       (if OCP_Bad_Employee.selectedNotifyChannel employee = Str ''SMS''
        then (Inr Undefined, (log' @ [Call_sendSMSNotification employee], w))
        else if OCP_Bad_Employee.selectedNotifyChannel employee = Str ''Email''
        then (Inr Undefined, (log' @ [Call_sendEmailNotification employee], w))
        else (Inl (Error ''Unknown Channel''), (log', w)))"
    by (simp add: bind_def return_def OCP_Bad_switch_run OCP_Bad_known_channel_def
          OCP_Bad_matching_call_def)
  from empty lsp rest good bad OCP_Good_sendNotification_run [of e log w']
  show ?thesis by (simp only: simp_thms)
qed

subsection \<open>C2: the standalone files and the README\<close>

text \<open>
  Claim C2, as stated, fails. The standalone file \<open>OpenClosedPrinciple-Good.ts\<close> is
  not the three OCP ``Good'' blocks of the README: it begins with the comment line
  \<open>// Good\<close>, which the README does not have, and also without that line it differs
  from the blocks: its class headers are \<open>class EmailNotifier {\<close> and
  \<open>class SMSNotifier {\<close>, and the README's lines with \<open>implements Notifier\<close> occur
  nowhere in the file.
\<close>

theorem C2_file_equals_README_blocks_counterexample:
  "\<not> matches_blocks file_OpenClosedPrinciple_Good_ts
        [README_OCP_Good_1, README_OCP_Good_2, README_OCP_Good_3]
   \<and> \<not> matches_blocks (tl file_OpenClosedPrinciple_Good_ts)
        [README_OCP_Good_1, README_OCP_Good_2, README_OCP_Good_3]
   \<and> hd file_OpenClosedPrinciple_Good_ts = ''// Good''
   \<and> README_OCP_Good_1 ! 4 = ''class EmailNotifier implements Notifier {''
   \<and> file_OpenClosedPrinciple_Good_ts ! 5 = ''class EmailNotifier {''
   \<and> README_OCP_Good_1 ! 10 = ''class SMSNotifier implements Notifier {''
   \<and> file_OpenClosedPrinciple_Good_ts ! 11 = ''class SMSNotifier {''
   \<and> ''class EmailNotifier implements Notifier {'' \<notin> set file_OpenClosedPrinciple_Good_ts
   \<and> ''class SMSNotifier implements Notifier {'' \<notin> set file_OpenClosedPrinciple_Good_ts"
  by (simp add: matches_blocks_def README_OCP_Good_1_def README_OCP_Good_2_def
        README_OCP_Good_3_def file_OpenClosedPrinciple_Good_ts_def)

text \<open>
  Claim C2, amended. Each standalone snippet file begins with a comment line naming the
  variant (\<open>// Bad\<close> or \<open>// Good\<close>; the SRP file holds both variants, each under its
  comment), which the README does not have. After these comment lines the files
  repeat these README blocks character for character, with one empty line between
  two blocks: the three classes of the SRP ``Good'' example, the \<open>NotifyManager\<close> of
  the OCP ``Bad'' example, and the \<open>Notifier\<close> interface, the \<open>Employee\<close> and the
  \<open>NotifyManager\<close> of the OCP ``Good'' example.
\<close>

theorem C2_files_repeat_README_blocks:
  "hd file_OpenClosedPrinciple_Good_ts = ''// Good''
   \<and> take 3 (tl file_OpenClosedPrinciple_Good_ts) = take 3 README_OCP_Good_1
   \<and> matches_blocks (drop 17 file_OpenClosedPrinciple_Good_ts)
        [README_OCP_Good_2, README_OCP_Good_3]
   \<and> hd file_part_001 = ''// Bad''
   \<and> matches_blocks (drop 13 file_part_001) [README_OCP_Bad_2]
   \<and> hd file_part_000 = ''// Bad''
   \<and> file_part_000 ! 16 = ''// Good''
   \<and> matches_blocks (drop 17 file_part_000)
        [README_SRP_Good_1, README_SRP_Good_2, README_SRP_Good_3]"
proof -
  have good: "hd file_OpenClosedPrinciple_Good_ts = ''// Good''"
      "take 3 (tl file_OpenClosedPrinciple_Good_ts) = take 3 README_OCP_Good_1"
      "matches_blocks (drop 17 file_OpenClosedPrinciple_Good_ts)
         [README_OCP_Good_2, README_OCP_Good_3]"
    by (simp_all add: matches_blocks_def README_OCP_Good_1_def README_OCP_Good_2_def
          README_OCP_Good_3_def file_OpenClosedPrinciple_Good_ts_def)
  have bad: "hd file_part_001 = ''// Bad''"
      "matches_blocks (drop 13 file_part_001) [README_OCP_Bad_2]"
    by (simp_all add: matches_blocks_def README_OCP_Bad_2_def file_part_001_def)
  have srp: "hd file_part_000 = ''// Bad''"
      "file_part_000 ! 16 = ''// Good''"
      "matches_blocks (drop 17 file_part_000)
         [README_SRP_Good_1, README_SRP_Good_2, README_SRP_Good_3]"
    by (simp_all add: matches_blocks_def README_SRP_Good_1_def README_SRP_Good_2_def
          README_SRP_Good_3_def file_part_000_def)
  from good bad srp show ?thesis by (simp only: simp_thms)
qed

subsection \<open>C3: the OCP ``Bad'' loop\<close>

text \<open>
  Claim C3. In the OCP ``Bad'' example, \<open>NotifyManager.notifyAll(employees)\<close> throws an
  \<open>Error\<close> with message ``Unknown Channel'' if and only if the list contains an
  employee whose \<open>selectedNotifyChannel\<close> is neither \<open>'SMS'\<close> nor \<open>'Email'\<close>, and it
  throws nothing else; when every employee's channel is \<open>'SMS'\<close> or \<open>'Email'\<close>, the
  calls made are exactly one call of the matching send method per employee, in list
  order, and \<open>notifyAll\<close> returns.
\<close>

theorem C3_notifyAll_throws_iff_unknown_channel:
  "(fst (OCP_Bad_NotifyManager_notifyAll es (log, w)) = Inl (Error ''Unknown Channel''))
     = (\<exists>e\<in>set es. OCP_Bad_Employee.selectedNotifyChannel e \<noteq> Str ''SMS''
                  \<and> OCP_Bad_Employee.selectedNotifyChannel e \<noteq> Str ''Email'')
   \<and> (\<forall>err. fst (OCP_Bad_NotifyManager_notifyAll es (log, w)) = Inl err
          \<longrightarrow> err = Error ''Unknown Channel'')
   \<and> ((\<forall>e\<in>set es. OCP_Bad_Employee.selectedNotifyChannel e = Str ''SMS''
                  \<or> OCP_Bad_Employee.selectedNotifyChannel e = Str ''Email'')
        \<longrightarrow> OCP_Bad_NotifyManager_notifyAll es (log, w)
            = (Inr Undefined, (log @ map OCP_Bad_matching_call es, w)))"
  by (auto simp add: OCP_Bad_notifyAll_run OCP_Bad_known_channel_def)

theorem C3_notifyAll_throws_iff_unknown_channel_witness:
  "OCP_Bad_NotifyManager_notifyAll
     [\<lparr>OCP_Bad_Employee.selectedNotifyChannel = Str ''SMS''\<rparr>,
      \<lparr>OCP_Bad_Employee.selectedNotifyChannel = Str ''Email''\<rparr>] ([], ())
   = (Inr Undefined,
      ([Call_sendSMSNotification \<lparr>OCP_Bad_Employee.selectedNotifyChannel = Str ''SMS''\<rparr>,
        Call_sendEmailNotification \<lparr>OCP_Bad_Employee.selectedNotifyChannel = Str ''Email''\<rparr>], ()))
   \<and> fst (OCP_Bad_NotifyManager_notifyAll
        [\<lparr>OCP_Bad_Employee.selectedNotifyChannel = Str ''SMS''\<rparr>, OCP_Bad_new_Employee,
         \<lparr>OCP_Bad_Employee.selectedNotifyChannel = Str ''Email''\<rparr>] ([], ()))
     = Inl (Error ''Unknown Channel'')"
proof -
  let ?sms = "\<lparr>OCP_Bad_Employee.selectedNotifyChannel = Str ''SMS''\<rparr>"
  let ?email = "\<lparr>OCP_Bad_Employee.selectedNotifyChannel = Str ''Email''\<rparr>"
  have known: "\<forall>e\<in>set [?sms, ?email].
      OCP_Bad_Employee.selectedNotifyChannel e = Str ''SMS''
      \<or> OCP_Bad_Employee.selectedNotifyChannel e = Str ''Email''"
    by simp
  have unknown: "\<exists>e\<in>set [?sms, OCP_Bad_new_Employee, ?email].
      OCP_Bad_Employee.selectedNotifyChannel e \<noteq> Str ''SMS''
      \<and> OCP_Bad_Employee.selectedNotifyChannel e \<noteq> Str ''Email''"
    by (simp add: OCP_Bad_new_Employee_def)
  from known C3_notifyAll_throws_iff_unknown_channel [of "[?sms, ?email]" "[]" "()"]
  have all: "OCP_Bad_NotifyManager_notifyAll [?sms, ?email] ([], ())
      = (Inr Undefined, ([] @ map OCP_Bad_matching_call [?sms, ?email], ()))"
    by blast
  from unknown
    C3_notifyAll_throws_iff_unknown_channel [of "[?sms, OCP_Bad_new_Employee, ?email]" "[]" "()"]
  have thrown: "fst (OCP_Bad_NotifyManager_notifyAll [?sms, OCP_Bad_new_Employee, ?email] ([], ()))
      = Inl (Error ''Unknown Channel'')"
    by blast
  from all have "OCP_Bad_NotifyManager_notifyAll [?sms, ?email] ([], ())
      = (Inr Undefined, ([Call_sendSMSNotification ?sms, Call_sendEmailNotification ?email], ()))"
    by (simp add: OCP_Bad_matching_call_def)
  with thrown show ?thesis by simp
qed

subsection \<open>C4: the ISP ``Bad'' notifier\<close>

text \<open>
  Claim C4. In the ISP ``Bad'' example, \<open>SMSNotifier.attachFile()\<close> throws an
  \<open>Error\<close> with the message ``SMS doesn't support attaching files'' on every call,
  whatever the state of the program, and leaves that state as it was;
  \<open>SMSNotifier.notify()\<close> never throws: it returns \<open>undefined\<close>. The same holds when
  the object is called through a \<open>Notifier\<close> reference.
\<close>

theorem C4_SMSNotifier_attachFile_always_throws:
  "ISP_Bad_SMSNotifier_attachFile w = (Inl (Error ''SMS doesn't support attaching files''), w)
   \<and> ISP_Bad_SMSNotifier_notify w = (Inr Undefined, w)
   \<and> ISP_Bad_attachFile ISP_Bad_SMSNotifier w =
       (Inl (Error ''SMS doesn't support attaching files''), w)
   \<and> ISP_Bad_notify ISP_Bad_SMSNotifier w = (Inr Undefined, w)"
  by (simp add: ISP_Bad_SMSNotifier_attachFile_def ISP_Bad_SMSNotifier_notify_def prog_defs)

subsection \<open>C5 and C6: the LSP ``Bad'' square\<close>

text \<open>
  Claim C5. In the LSP ``Bad'' example, \<open>setWidth(4)\<close>, \<open>setHeight(5)\<close>, \<open>getArea()\<close>
  on a freshly constructed \<open>Square\<close> returns 25, and on a freshly constructed
  \<open>Rectangle\<close> returns 20; \<open>getArea\<close> returns \<open>width * height\<close>, the product of
  the two numbers as \<open>*\<close> computes it on doubles, which for non-negative integer
  sides below \<open>2 ^ 53\<close> with a product below \<open>2 ^ 53\<close> is the product of the
  integers. So \<open>renderLargeRectangles\<close> passes the areas 20, 20, 25 to \<open>render\<close> for
  the array \<open>[new Rectangle(), new Rectangle(), new Square()]\<close>.
\<close>

theorem C5_square_area_25_rectangle_area_20:
  "fst (LSP_Bad_area_4_5 LSP_Bad_new_Square) = Inr (Num (num 25))
   \<and> fst (LSP_Bad_area_4_5 LSP_Bad_new_Rectangle) = Inr (Num (num 20))
   \<and> fst (LSP_Bad_getArea this) = Inr (Num (js_times (width this) (height this)))
   \<and> (0 \<le> a \<and> 0 \<le> b \<and> a < 2 ^ 53 \<and> b < 2 ^ 53 \<and> a * b < 2 ^ 53 \<longrightarrow>
        fst (LSP_Bad_getArea \<lparr>cls = c, width = num a, height = num b\<rparr>) = Inr (Num (num (a * b))))
   \<and> fst (LSP_Bad_renderLargeRectangles
            [LSP_Bad_new_Rectangle, LSP_Bad_new_Rectangle, LSP_Bad_new_Square])
       = Inr [Num (num 20), Num (num 20), Num (num 25)]"
  by (simp add: LSP_Bad_area_4_5_def LSP_Bad_callback_def LSP_Bad_defs prog_defs
        js_times_examples js_times_num)

theorem C5_square_area_25_rectangle_area_20_witness:
  "fst (LSP_Bad_getArea \<lparr>cls = Square, width = num 4, height = num 5\<rparr>) = Inr (Num (num 20))
   \<and> num 20 = Double 5 2
   \<and> fst (LSP_Bad_getArea \<lparr>cls = Rectangle, width = num 94906267, height = num 94906267\<rparr>)
       = Inr (Num (num 9007199515875288))"
proof -
  have "(0::int) \<le> 4 \<and> (0::int) \<le> 5 \<and> (4::int) < 2 ^ 53 \<and> (5::int) < 2 ^ 53
      \<and> (4::int) * 5 < 2 ^ 53"
    by simp
  with C5_square_area_25_rectangle_area_20 [of _ 4 5 Square]
  have "fst (LSP_Bad_getArea \<lparr>cls = Square, width = num 4, height = num 5\<rparr>)
      = Inr (Num (num (4 * 5)))"
    by blast
  moreover have "num 20 = Double 5 2"
    by (simp add: number_eval)
  moreover from C5_square_area_25_rectangle_area_20
      [of "\<lparr>cls = Rectangle, width = num 94906267, height = num 94906267\<rparr>"]
  have "fst (LSP_Bad_getArea \<lparr>cls = Rectangle, width = num 94906267, height = num 94906267\<rparr>)
      = Inr (Num (num 9007199515875288))"
    by (simp add: js_times_rounds)
  ultimately show ?thesis by simp
qed




subsection \<open>C7: the OCP ``Good'' loop\<close>

text \<open>
  Claim C7, as stated, fails: \<open>notifyAll\<close> has no \<open>try\<close>, so an error thrown by the
  \<open>notify()\<close> of an injected notifier leaves \<open>notifyAll\<close>, and the employees after it
  in the list are not called. Here the first of two employees is constructed with a
  \<open>Notifier\<close> whose \<open>notify()\<close> throws.
\<close>

theorem C7_notifyAll_never_throws_counterexample:
  "fst (OCP_Good_NotifyManager_notifyAll
          [OCP_Good_Employee_constructor
             \<lparr>class_name = ''WhatsAppNotifier'', notify = throw (Error ''not connected'')\<rparr>,
           OCP_Good_Employee_constructor OCP_Good_new_SMSNotifier] ([], ()))
     = Inl (Error ''not connected'')
   \<and> fst (snd (OCP_Good_NotifyManager_notifyAll
          [OCP_Good_Employee_constructor
             \<lparr>class_name = ''WhatsAppNotifier'', notify = throw (Error ''not connected'')\<rparr>,
           OCP_Good_Employee_constructor OCP_Good_new_SMSNotifier] ([], ())))
     = [Call_sendNotification (OCP_Good_Employee_constructor
          \<lparr>class_name = ''WhatsAppNotifier'', notify = throw (Error ''not connected'')\<rparr>),
        Call_notify
          \<lparr>class_name = ''WhatsAppNotifier'', notify = throw (Error ''not connected'')\<rparr>]"
  by (simp add: OCP_Good_defs call_def unlogged_def prog_defs)

text \<open>
  Claim C7, amended. In the OCP ``Good'' example, for every list of employees whose
  injected notifiers' \<open>notify()\<close> does not throw (in particular for employees
  constructed with the repository's \<open>EmailNotifier\<close> and \<open>SMSNotifier\<close>, for which the
  rest of the state is also left as it was), \<open>NotifyManager.notifyAll\<close> calls
  \<open>employee.sendNotification()\<close> exactly once per employee in list order, each
  followed by the one call of \<open>notify()\<close> on that employee's notifier, and returns
  without throwing, whatever the employees' \<open>selectedNotifyChannel\<close>.
  \<open>sendNotification\<close> delegates to the injected notifier's \<open>notify()\<close>: it makes
  that one call, returns \<open>undefined\<close> when the call returns and throws what the call
  throws. An error thrown by a \<open>notify()\<close> propagates out of \<open>notifyAll\<close>: when the
  notifiers of the employees before some employee return and that employee's
  \<open>notify()\<close> throws, \<open>notifyAll\<close> throws the same error after the calls for the
  employees before it and the two calls for it, and the employees after it are not
  called. An error that leaves \<open>notifyAll\<close> was thrown by the \<open>notify()\<close> of one of
  the notifiers.
\<close>

theorem C7_notifyAll_calls_each_employee_once:
  "((\<forall>e\<in>set es. OCP_Good_notify_returns (notifier e)) \<longrightarrow>
      OCP_Good_NotifyManager_notifyAll es (log, w) =
        (Inr Undefined, (log @ OCP_Good_calls_of es, OCP_Good_state_after es w)))
   \<and> ((\<forall>e\<in>set es. notifier e = OCP_Good_new_EmailNotifier
                   \<or> notifier e = OCP_Good_new_SMSNotifier) \<longrightarrow>
      OCP_Good_NotifyManager_notifyAll es (log, w) =
        (Inr Undefined, (log @ OCP_Good_calls_of es, w)))
   \<and> OCP_Good_Employee_sendNotification e (log, w) =
       (case notify (notifier e) w of
          (Inl err, w') \<Rightarrow> (Inl err, (log @ [Call_notify (notifier e)], w'))
        | (Inr v, w') \<Rightarrow> (Inr Undefined, (log @ [Call_notify (notifier e)], w')))
   \<and> (fst (OCP_Good_NotifyManager_notifyAll es (log, w)) = Inl err \<longrightarrow>
        (\<exists>e\<in>set es. \<exists>w'. fst (notify (notifier e) w') = Inl err))
   \<and> (OCP_Good_all_return es w \<longrightarrow>
        OCP_Good_NotifyManager_notifyAll es (log, w) =
          (Inr Undefined, (log @ OCP_Good_calls_of es, OCP_Good_state_after es w)))
   \<and> (OCP_Good_all_return before w
        \<and> notify (notifier thrower) (OCP_Good_state_after before w) = (Inl err, w_thrown) \<longrightarrow>
        OCP_Good_NotifyManager_notifyAll (before @ thrower # after) (log, w) =
          (Inl err,
           (log @ OCP_Good_calls_of before
              @ [Call_sendNotification thrower, Call_notify (notifier thrower)],
            w_thrown)))"
proof -
  have repo: "OCP_Good_NotifyManager_notifyAll es (log, w) =
        (Inr Undefined, (log @ OCP_Good_calls_of es, w))"
    if h: "\<forall>e\<in>set es. notifier e = OCP_Good_new_EmailNotifier
                   \<or> notifier e = OCP_Good_new_SMSNotifier"
  proof -
    from h have "\<forall>e\<in>set es. OCP_Good_notify_returns (notifier e)"
      by (simp add: OCP_Good_repository_notifiers)
    from OCP_Good_notifyAll_returns [OF this] OCP_Good_state_after_repository [OF h]
    show ?thesis by simp
  qed
  have ret: "(\<forall>e\<in>set es. OCP_Good_notify_returns (notifier e)) \<longrightarrow>
      OCP_Good_NotifyManager_notifyAll es (log, w) =
        (Inr Undefined, (log @ OCP_Good_calls_of es, OCP_Good_state_after es w))"
    using OCP_Good_notifyAll_returns [of es log w] by blast
  have thr: "fst (OCP_Good_NotifyManager_notifyAll es (log, w)) = Inl err \<longrightarrow>
        (\<exists>e\<in>set es. \<exists>w'. fst (notify (notifier e) w') = Inl err)"
    using OCP_Good_notifyAll_throws [of es log w err] by blast
  have run: "OCP_Good_all_return es w \<longrightarrow>
        OCP_Good_NotifyManager_notifyAll es (log, w) =
          (Inr Undefined, (log @ OCP_Good_calls_of es, OCP_Good_state_after es w))"
    using OCP_Good_notifyAll_all_return [of es w log] by blast
  have first: "OCP_Good_all_return before w
        \<and> notify (notifier thrower) (OCP_Good_state_after before w) = (Inl err, w_thrown) \<longrightarrow>
        OCP_Good_NotifyManager_notifyAll (before @ thrower # after) (log, w) =
          (Inl err,
           (log @ OCP_Good_calls_of before
              @ [Call_sendNotification thrower, Call_notify (notifier thrower)],
            w_thrown))"
    using OCP_Good_notifyAll_first_throw [of before w thrower err w_thrown after log] by blast
  from ret repo thr run first OCP_Good_sendNotification_run [of e log w] show ?thesis
    by blast
qed

theorem C7_notifyAll_calls_each_employee_once_witness:
  "OCP_Good_notify_returns (OCP_Good_new_EmailNotifier :: unit OCP_Good_Notifier)
   \<and> OCP_Good_notify_returns (OCP_Good_new_SMSNotifier :: unit OCP_Good_Notifier)
   \<and> OCP_Good_NotifyManager_notifyAll
       [\<lparr>notifier = OCP_Good_new_EmailNotifier, selectedNotifyChannel = Str ''Fax''\<rparr>,
        OCP_Good_Employee_constructor OCP_Good_new_SMSNotifier] ([], ())
     = (Inr Undefined,
        ([Call_sendNotification
            \<lparr>notifier = OCP_Good_new_EmailNotifier, selectedNotifyChannel = Str ''Fax''\<rparr>,
          Call_notify OCP_Good_new_EmailNotifier,
          Call_sendNotification (OCP_Good_Employee_constructor OCP_Good_new_SMSNotifier),
          Call_notify OCP_Good_new_SMSNotifier], ()))
   \<and> fst (OCP_Good_NotifyManager_notifyAll
          [OCP_Good_Employee_constructor
             \<lparr>class_name = ''WhatsAppNotifier'', notify = throw (Error ''not connected'')\<rparr>]
          ([], ()))
     = Inl (Error ''not connected'')
   \<and> fst (notify \<lparr>class_name = ''WhatsAppNotifier'', notify = throw (Error ''not connected'')\<rparr> ())
     = Inl (Error ''not connected'')
   \<and> OCP_Good_all_return [OCP_Good_Employee_constructor OCP_Good_new_EmailNotifier] ()
   \<and> OCP_Good_NotifyManager_notifyAll
       [OCP_Good_Employee_constructor OCP_Good_new_EmailNotifier,
        OCP_Good_Employee_constructor
          \<lparr>class_name = ''WhatsAppNotifier'', notify = throw (Error ''not connected'')\<rparr>,
        OCP_Good_Employee_constructor OCP_Good_new_SMSNotifier] ([], ())
     = (Inl (Error ''not connected''),
        ([Call_sendNotification (OCP_Good_Employee_constructor OCP_Good_new_EmailNotifier),
          Call_notify OCP_Good_new_EmailNotifier,
          Call_sendNotification (OCP_Good_Employee_constructor
            \<lparr>class_name = ''WhatsAppNotifier'', notify = throw (Error ''not connected'')\<rparr>),
          Call_notify
            \<lparr>class_name = ''WhatsAppNotifier'', notify = throw (Error ''not connected'')\<rparr>],
         ()))"
proof -
  let ?e1 = "\<lparr>notifier = OCP_Good_new_EmailNotifier :: unit OCP_Good_Notifier,
               selectedNotifyChannel = Str ''Fax''\<rparr>"
  let ?e2 = "OCP_Good_Employee_constructor (OCP_Good_new_SMSNotifier :: unit OCP_Good_Notifier)"
  let ?n3 = "\<lparr>class_name = ''WhatsAppNotifier'',
               notify = throw (Error ''not connected'') :: (unit, jsval) prog\<rparr>"
  let ?e0 = "OCP_Good_Employee_constructor (OCP_Good_new_EmailNotifier :: unit OCP_Good_Notifier)"
  have returns: "OCP_Good_notify_returns (OCP_Good_new_EmailNotifier :: unit OCP_Good_Notifier)"
      "OCP_Good_notify_returns (OCP_Good_new_SMSNotifier :: unit OCP_Good_Notifier)"
    by (simp_all add: OCP_Good_notify_returns_def OCP_Good_defs prog_defs)
  have repo: "\<forall>e\<in>set [?e1, ?e2]. notifier e = OCP_Good_new_EmailNotifier
      \<or> notifier e = OCP_Good_new_SMSNotifier"
    by (simp add: OCP_Good_Employee_constructor_def)
  from repo C7_notifyAll_calls_each_employee_once [where es = "[?e1, ?e2]" and log = "[]" and w = "()"]
  have "OCP_Good_NotifyManager_notifyAll [?e1, ?e2] ([], ())
      = (Inr Undefined, ([] @ OCP_Good_calls_of [?e1, ?e2], ()))"
    by blast
  then have all: "OCP_Good_NotifyManager_notifyAll [?e1, ?e2] ([], ())
      = (Inr Undefined,
         ([Call_sendNotification ?e1, Call_notify OCP_Good_new_EmailNotifier,
           Call_sendNotification ?e2, Call_notify OCP_Good_new_SMSNotifier], ()))"
    by (simp add: OCP_Good_calls_of_def OCP_Good_Employee_constructor_def)
  have thrown: "fst (OCP_Good_NotifyManager_notifyAll [OCP_Good_Employee_constructor ?n3] ([], ()))
      = Inl (Error ''not connected'')"
    by (simp add: OCP_Good_defs call_def unlogged_def prog_defs)
  with C7_notifyAll_calls_each_employee_once
      [where es = "[OCP_Good_Employee_constructor ?n3]" and log = "[]" and w = "()"
         and err = "Error ''not connected''"]
  have "\<exists>e\<in>set [OCP_Good_Employee_constructor ?n3]. \<exists>w'.
      fst (notify (notifier e) w') = Inl (Error ''not connected'')"
    by blast
  then have source: "fst (notify ?n3 ()) = Inl (Error ''not connected'')"
    by (simp add: OCP_Good_Employee_constructor_def)
  have before: "OCP_Good_all_return [?e0] ()"
    by (simp add: OCP_Good_defs prog_defs)
  have throws: "notify (notifier (OCP_Good_Employee_constructor ?n3))
      (OCP_Good_state_after [?e0] ()) = (Inl (Error ''not connected''), ())"
    by (simp add: OCP_Good_defs prog_defs)
  from before throws C7_notifyAll_calls_each_employee_once
      [where before = "[?e0]" and w = "()" and thrower = "OCP_Good_Employee_constructor ?n3"
         and err = "Error ''not connected''" and w_thrown = "()" and after = "[?e2]"
         and log = "[]"]
  have "OCP_Good_NotifyManager_notifyAll
      ([?e0] @ OCP_Good_Employee_constructor ?n3 # [?e2]) ([], ())
      = (Inl (Error ''not connected''),
         ([] @ OCP_Good_calls_of [?e0]
            @ [Call_sendNotification (OCP_Good_Employee_constructor ?n3),
               Call_notify (notifier (OCP_Good_Employee_constructor ?n3))], ()))"
    by blast
  then have first: "OCP_Good_NotifyManager_notifyAll
      [?e0, OCP_Good_Employee_constructor ?n3, ?e2] ([], ())
      = (Inl (Error ''not connected''),
         ([Call_sendNotification ?e0, Call_notify OCP_Good_new_EmailNotifier,
           Call_sendNotification (OCP_Good_Employee_constructor ?n3), Call_notify ?n3], ()))"
    by (simp add: OCP_Good_calls_of_def OCP_Good_Employee_constructor_def)
  from returns all thrown source before first show ?thesis by simp
qed

subsection \<open>C8: what happens to the fields\<close>

text \<open>
  Claim C8, as stated, fails: the fields are assigned, read and branched on. In the LSP
  ``Bad'' example \<open>getArea\<close> reads \<open>width\<close> and \<open>height\<close> to compute its result (6 for
  2 by 3, 12 for 4 by 3) and \<open>setWidth(4)\<close> assigns \<open>width\<close>; in the OCP ``Bad'' example
  \<open>notifyAll\<close> branches on \<open>selectedNotifyChannel\<close>: it returns for \<open>'SMS'\<close> and
  throws for \<open>'Fax'\<close>.
\<close>

theorem C8_fields_are_never_used_counterexample:
  "fst (LSP_Bad_getArea \<lparr>cls = Rectangle, width = num 2, height = num 3\<rparr>)
     = Inr (Num (num 6))
   \<and> fst (LSP_Bad_getArea \<lparr>cls = Rectangle, width = num 4, height = num 3\<rparr>)
     = Inr (Num (num 12))
   \<and> num 6 \<noteq> num 12
   \<and> width (snd (LSP_Bad_setWidth (num 4) LSP_Bad_new_Rectangle)) = num 4
   \<and> num 4 \<noteq> num 0
   \<and> fst (OCP_Bad_NotifyManager_notifyAll
            [\<lparr>OCP_Bad_Employee.selectedNotifyChannel = Str ''SMS''\<rparr>] ([], ()))
       = Inr Undefined
   \<and> fst (OCP_Bad_NotifyManager_notifyAll
            [\<lparr>OCP_Bad_Employee.selectedNotifyChannel = Str ''Fax''\<rparr>] ([], ()))
       = Inl (Error ''Unknown Channel'')"
proof -
  have "num 6 = Double 3 1" "num 12 = Double 3 2" "num 4 = Double 1 2" "num 0 = Double 0 0"
    by (simp_all add: number_eval)
  then have "num 6 \<noteq> num 12" "num 4 \<noteq> num 0" by simp_all
  then show ?thesis
    by (simp add: LSP_Bad_defs OCP_Bad_defs call_def prog_defs js_times_examples)
qed

text \<open>
  Claim C8, amended. \<open>width\<close> and \<open>height\<close> are populated and read, without
  validation: the LSP ``Bad'' constructor sets both to 0, the setters store the value
  they are given as it is, whatever kind of value it is (a \<open>Square\<close> in both fields),
  the LSP ``Good'' constructors store their arguments, and \<open>getArea\<close> reads the fields
  and returns the product of the numbers in them as \<open>*\<close> computes it on doubles.
  No method assigns \<open>selectedNotifyChannel\<close>: the OCP ``Good'' constructor leaves it
  \<open>undefined\<close>; the two send methods and \<open>notifyAll\<close> of the OCP ``Bad'' example
  leave the program state, apart from the record of calls, as they found it (so the
  employees themselves, when they are that state); in the OCP
  ``Good'' example \<open>sendNotification\<close> and \<open>notifyAll\<close> change it only through the
  \<open>notify()\<close> of the injected notifiers, and the \<open>notify()\<close> of \<open>EmailNotifier\<close> and
  of \<open>SMSNotifier\<close> changes nothing. In the OCP ``Good'' example no method reads the
  field (\<open>sendNotification\<close> is the same for every value of it, and the outcome of
  \<open>notifyAll\<close> and the state it leaves are the same whatever the employees' channels
  are). In the OCP ``Bad'' example \<open>notifyAll\<close> branches on it: \<open>'SMS'\<close> and
  \<open>'Email'\<close> select a send method, every other value throws.
\<close>

theorem C8_fields_assigned_read_and_branched_on:
  "width (LSP_Bad_Rectangle_constructor c) = num 0
   \<and> height (LSP_Bad_Rectangle_constructor c) = num 0
   \<and> LSP_Bad_setWidth x s =
       (Inr Undefined, if cls s = Square then s\<lparr>width := x, height := x\<rparr> else s\<lparr>width := x\<rparr>)
   \<and> LSP_Bad_setHeight x s =
       (Inr Undefined, if cls s = Square then s\<lparr>width := x, height := x\<rparr> else s\<lparr>height := x\<rparr>)
   \<and> LSP_Good_Rectangle_constructor x y = LSP_Good_Rectangle x y
   \<and> LSP_Good_Square_constructor x = LSP_Good_Square x
   \<and> LSP_Bad_getArea r = (Inr (Num (js_times (width r) (height r))), r)
   \<and> LSP_Good_getArea (LSP_Good_Rectangle a b)
       = (Inr (Num (js_times a b)), LSP_Good_Rectangle a b)
   \<and> LSP_Good_getArea (LSP_Good_Square l) = (Inr (Num (js_times l l)), LSP_Good_Square l)
   \<and> OCP_Good_Employee.selectedNotifyChannel (OCP_Good_Employee_constructor n) = Undefined
   \<and> OCP_Bad_Employee_sendEmailNotification employee w' = (Inr Undefined, w')
   \<and> OCP_Bad_Employee_sendSMSNotification employee w' = (Inr Undefined, w')
   \<and> snd (snd (OCP_Bad_NotifyManager_notifyAll employees (log', w'))) = w'
   \<and> snd (OCP_Bad_Employee_sendEmailNotification employee employee) = employee
   \<and> snd (OCP_Bad_Employee_sendSMSNotification employee employee) = employee
   \<and> snd (snd (OCP_Bad_NotifyManager_notifyAll employees (log', employees))) = employees
   \<and> snd (snd (OCP_Good_Employee_sendNotification e (log, w))) = snd (notify (notifier e) w)
   \<and> snd (snd (OCP_Good_NotifyManager_notifyAll es (log, w))) = OCP_Good_final_state es w
   \<and> OCP_Good_EmailNotifier_notify w = (Inr Undefined, w)
   \<and> OCP_Good_SMSNotifier_notify w = (Inr Undefined, w)
   \<and> OCP_Good_Employee_sendNotification (e\<lparr>selectedNotifyChannel := ch\<rparr>)
       = OCP_Good_Employee_sendNotification e
   \<and> fst (OCP_Good_NotifyManager_notifyAll
            (map (\<lambda>e. e\<lparr>selectedNotifyChannel := f e\<rparr>) es) (log, w))
       = fst (OCP_Good_NotifyManager_notifyAll es (log, w))
   \<and> snd (snd (OCP_Good_NotifyManager_notifyAll
                 (map (\<lambda>e. e\<lparr>selectedNotifyChannel := f e\<rparr>) es) (log, w)))
       = snd (snd (OCP_Good_NotifyManager_notifyAll es (log, w)))
   \<and> OCP_Bad_switch employee (log', w') =
       (if OCP_Bad_Employee.selectedNotifyChannel employee = Str ''SMS''
        then (Inr Undefined, (log' @ [Call_sendSMSNotification employee], w'))
        else if OCP_Bad_Employee.selectedNotifyChannel employee = Str ''Email''
        then (Inr Undefined, (log' @ [Call_sendEmailNotification employee], w'))
        else (Inl (Error ''Unknown Channel''), (log', w')))"
proof -
  have lsp: "width (LSP_Bad_Rectangle_constructor c) = num 0"
      "height (LSP_Bad_Rectangle_constructor c) = num 0"
      "LSP_Bad_setWidth x s =
        (Inr Undefined, if cls s = Square then s\<lparr>width := x, height := x\<rparr> else s\<lparr>width := x\<rparr>)"
      "LSP_Bad_setHeight x s =
        (Inr Undefined, if cls s = Square then s\<lparr>width := x, height := x\<rparr> else s\<lparr>height := x\<rparr>)"
      "LSP_Good_Rectangle_constructor x y = LSP_Good_Rectangle x y"
      "LSP_Good_Square_constructor x = LSP_Good_Square x"
      "LSP_Bad_getArea r = (Inr (Num (js_times (width r) (height r))), r)"
      "LSP_Good_getArea (LSP_Good_Rectangle a b)
        = (Inr (Num (js_times a b)), LSP_Good_Rectangle a b)"
      "LSP_Good_getArea (LSP_Good_Square l) = (Inr (Num (js_times l l)), LSP_Good_Square l)"
    by (simp_all add: LSP_Bad_defs LSP_Good_Rectangle_constructor_def
          LSP_Good_Square_constructor_def split: LSP_Bad_class.split)
  have ctor: "OCP_Good_Employee.selectedNotifyChannel (OCP_Good_Employee_constructor n) = Undefined"
    by (simp add: OCP_Good_Employee_constructor_def)
  have unchanged: "OCP_Bad_Employee_sendEmailNotification employee w' = (Inr Undefined, w')"
      "OCP_Bad_Employee_sendSMSNotification employee w' = (Inr Undefined, w')"
      "OCP_Good_EmailNotifier_notify w = (Inr Undefined, w)"
      "OCP_Good_SMSNotifier_notify w = (Inr Undefined, w)"
      "snd (OCP_Bad_Employee_sendEmailNotification employee employee) = employee"
      "snd (OCP_Bad_Employee_sendSMSNotification employee employee) = employee"
    by (simp_all add: OCP_Bad_defs OCP_Good_defs prog_defs)
  have bad: "OCP_Bad_switch employee (log', w') =
       (if OCP_Bad_Employee.selectedNotifyChannel employee = Str ''SMS''
        then (Inr Undefined, (log' @ [Call_sendSMSNotification employee], w'))
        else if OCP_Bad_Employee.selectedNotifyChannel employee = Str ''Email''
        then (Inr Undefined, (log' @ [Call_sendEmailNotification employee], w'))
        else (Inl (Error ''Unknown Channel''), (log', w')))"
    by (simp add: OCP_Bad_switch_run OCP_Bad_known_channel_def OCP_Bad_matching_call_def)
  from lsp ctor unchanged bad
    OCP_Bad_notifyAll_state [of employees log' w']
    OCP_Bad_notifyAll_state [of employees log' employees]
    OCP_Good_sendNotification_state [of e log w]
    OCP_Good_notifyAll_final_state [of es log w]
    OCP_Good_sendNotification_ignores_channel [where e = e and ch = ch]
    OCP_Good_notifyAll_ignores_channel [where f = f and es = es and log = log and w = w and log' = log]
  show ?thesis by (simp only: simp_thms)
qed

end
